theory Spec2Isabelle
  imports Complex_Main
begin

section \<open>Flight dynamics and camera transform of the Cessna 172 simulator\<close>

text \<open>
  The theory embeds \<^verbatim>\<open>flight-simulator.py\<close>: the class \<^verbatim>\<open>Aircraft\<close> with its
  method \<^verbatim>\<open>update\<close>, the input handler \<^verbatim>\<open>FlightSimulator.handle_input\<close> and the
  eye-position part of \<^verbatim>\<open>FlightSimulator.render\<close>.

  Python floats are idealised as real numbers: every arithmetic operation is exact, so
  rounding, overflow to infinity and NaN are outside the model.  The one call of
  \<^verbatim>\<open>np.random.random()\<close> is an explicit argument \<open>rnd\<close> of \<open>update\<close>; the generator
  returns a value of the half-open interval from 0 to 1.
\<close>

subsection \<open>Constants\<close>

definition CESSNA_MAX_SPEED :: real where "CESSNA_MAX_SPEED = 140"
definition CESSNA_CRUISE_SPEED :: real where "CESSNA_CRUISE_SPEED = 122"
definition CESSNA_STALL_SPEED :: real where "CESSNA_STALL_SPEED = 50"
definition CESSNA_CLIMB_RATE :: real where "CESSNA_CLIMB_RATE = 700"
definition CESSNA_DESCENT_RATE :: real where "CESSNA_DESCENT_RATE = - 500"
definition CESSNA_ROLL_RATE :: real where "CESSNA_ROLL_RATE = 60"
definition CESSNA_PITCH_RATE :: real where "CESSNA_PITCH_RATE = 25"
definition CESSNA_YAW_RATE :: real where "CESSNA_YAW_RATE = 20"
definition KIND_ELEVATION :: real where "KIND_ELEVATION = 797"
definition FEET_TO_METERS :: real where "FEET_TO_METERS = 0.3048"
definition KNOTS_TO_MPS :: real where "KNOTS_TO_MPS = 0.51444"

subsection \<open>Library functions of Python\<close>

text \<open>\<^verbatim>\<open>math.radians\<close>.\<close>

definition radians :: "real \<Rightarrow> real" where
  "radians d = d * pi / 180"

text \<open>
  The operator \<^verbatim>\<open>%\<close> on floats with a positive divisor: the result has the sign of the
  divisor, \<^verbatim>\<open>a - b * floor(a / b)\<close>.  For an operand that is not negative the float
  operation is exact.  For a negative operand it adds the divisor to a negative remainder,
  and that addition rounds: \<^verbatim>\<open>-1e-17 % 360\<close> is \<^verbatim>\<open>360.0\<close>.  The real-number
  result below is always less than the divisor; on floats the divisor itself is attained,
  so a statement about the upper end of the heading where the operand may be negative is
  made with \<open>\<le>\<close>.
\<close>

definition py_mod :: "real \<Rightarrow> real \<Rightarrow> real" where
  "py_mod a b = a - b * of_int \<lfloor>a / b\<rfloor>"

subsection \<open>The class Aircraft\<close>

record aircraft =
  x :: real
  y :: real
  z :: real
  pitch :: real
  roll :: real
  heading :: real
  airspeed :: real
  vertical_speed :: real
  throttle :: real
  elevator :: real
  aileron :: real
  rudder :: real
  flaps :: int
  rpm :: real
  fuel :: real
  gear_down :: bool

text \<open>\<^verbatim>\<open>Aircraft.__init__\<close>.\<close>

definition Aircraft_init :: aircraft where
  "Aircraft_init =
     \<lparr> x = 0, y = KIND_ELEVATION * FEET_TO_METERS, z = 0,
       pitch = 0, roll = 0, heading = 0,
       airspeed = 0, vertical_speed = 0,
       throttle = 0, elevator = 0, aileron = 0, rudder = 0, flaps = 0,
       rpm = 0, fuel = 100, gear_down = True \<rparr>"

subsection \<open>Aircraft.update, statement group by statement group\<close>

text \<open>Lines 75 to 87: velocity components and the Euler step of the position.\<close>

definition integrate_position :: "real \<Rightarrow> aircraft \<Rightarrow> aircraft" where
  "integrate_position dt s =
     (let heading_rad = radians (heading s);
          pitch_rad = radians (pitch s);
          dx = airspeed s * sin heading_rad * cos pitch_rad;
          dy = airspeed s * sin pitch_rad;
          dz = airspeed s * cos heading_rad * cos pitch_rad
      in s\<lparr> x := x s + dx * dt, y := y s + dy * dt, z := z s + dz * dt \<rparr>)"

text \<open>Lines 89 to 93: ground collision check.\<close>

definition ground_collision :: "aircraft \<Rightarrow> aircraft" where
  "ground_collision s =
     (if y s < KIND_ELEVATION * FEET_TO_METERS
      then s\<lparr> y := KIND_ELEVATION * FEET_TO_METERS,
              vertical_speed := 0,
              pitch := max 0 (pitch s) \<rparr>
      else s)"

text \<open>Lines 95 to 104: control inputs, banking effect, heading normalisation.\<close>

definition apply_controls :: "real \<Rightarrow> aircraft \<Rightarrow> aircraft" where
  "apply_controls dt s =
     (let s1 = s\<lparr> roll := roll s + aileron s * CESSNA_ROLL_RATE * dt,
                  pitch := pitch s + elevator s * CESSNA_PITCH_RATE * dt,
                  heading := heading s + rudder s * CESSNA_YAW_RATE * dt \<rparr>;
          s2 = s1\<lparr> heading := heading s1 + sin (radians (roll s1)) * dt * 10 \<rparr>
      in s2\<lparr> heading := py_mod (heading s2) 360 \<rparr>)"

text \<open>Lines 106 to 108: limit pitch and roll.\<close>

definition limit_attitude :: "aircraft \<Rightarrow> aircraft" where
  "limit_attitude s =
     s\<lparr> pitch := max (- 30) (min 30 (pitch s)),
        roll := max (- 60) (min 60 (roll s)) \<rparr>"

text \<open>Lines 110 to 113: throttle.\<close>

definition apply_throttle :: "real \<Rightarrow> aircraft \<Rightarrow> aircraft" where
  "apply_throttle dt s =
     (let target_airspeed = throttle s * CESSNA_MAX_SPEED * KNOTS_TO_MPS;
          airspeed_diff = target_airspeed - airspeed s
      in s\<lparr> airspeed := airspeed s + airspeed_diff * dt * 0.5 \<rparr>)"

text \<open>Lines 115 to 118: RPM.\<close>

definition update_rpm :: "real \<Rightarrow> aircraft \<Rightarrow> aircraft" where
  "update_rpm dt s =
     (let target_rpm = 500 + throttle s * 2300;
          rpm_diff = target_rpm - rpm s
      in s\<lparr> rpm := rpm s + rpm_diff * dt * 2 \<rparr>)"

text \<open>Lines 120 to 134: vertical speed from pitch and airspeed.\<close>

definition target_vs :: "aircraft \<Rightarrow> real" where
  "target_vs s =
     (if pitch s > 0 then
        (let pitch_factor = pitch s / 10;
             speed_factor = min 1.0 (airspeed s / (CESSNA_CRUISE_SPEED * KNOTS_TO_MPS))
         in CESSNA_CLIMB_RATE * FEET_TO_METERS / 60 * pitch_factor * speed_factor)
      else if pitch s < 0 then
        (let pitch_factor = \<bar>pitch s\<bar> / 10
         in CESSNA_DESCENT_RATE * FEET_TO_METERS / 60 * pitch_factor)
      else 0)"

definition update_vertical_speed :: "real \<Rightarrow> aircraft \<Rightarrow> aircraft" where
  "update_vertical_speed dt s =
     (let vs_diff = target_vs s - vertical_speed s
      in s\<lparr> vertical_speed := vertical_speed s + vs_diff * dt * 0.5 \<rparr>)"

text \<open>Lines 136 to 142: fuel consumption and the empty tank.\<close>

definition fuel_consumption :: "real \<Rightarrow> aircraft \<Rightarrow> aircraft" where
  "fuel_consumption dt s =
     (let s1 = s\<lparr> fuel := fuel s - throttle s * dt * 0.05 \<rparr>;
          s2 = s1\<lparr> fuel := max 0 (fuel s1) \<rparr>
      in if fuel s2 \<le> 0 then s2\<lparr> rpm := max 0 (rpm s2 - 500 * dt) \<rparr> else s2)"

text \<open>Lines 144 to 146: natural tendency to level out.\<close>

definition level_out :: "aircraft \<Rightarrow> aircraft" where
  "level_out s = (if \<bar>aileron s\<bar> < 0.1 then s\<lparr> roll := roll s * 0.95 \<rparr> else s)"

text \<open>Lines 148 to 154: stall behaviour; \<open>rnd\<close> is the value of \<^verbatim>\<open>np.random.random()\<close>.\<close>

definition stall :: "real \<Rightarrow> real \<Rightarrow> aircraft \<Rightarrow> aircraft" where
  "stall dt rnd s =
     (if airspeed s < CESSNA_STALL_SPEED * KNOTS_TO_MPS * 0.9 then
        (let s1 = s\<lparr> vertical_speed := vertical_speed s - 9.8 * dt \<rparr>
         in if \<bar>roll s1\<bar> < 5 then s1\<lparr> roll := roll s1 + (rnd - 0.5) * 10 * dt \<rparr> else s1)
      else s)"

text \<open>The state when the stall check of line 149 is reached.\<close>

definition before_stall :: "real \<Rightarrow> aircraft \<Rightarrow> aircraft" where
  "before_stall dt s =
     level_out (fuel_consumption dt (update_vertical_speed dt (update_rpm dt
       (apply_throttle dt (limit_attitude (apply_controls dt
         (ground_collision (integrate_position dt s))))))))"

text \<open>\<^verbatim>\<open>Aircraft.update\<close>: the statement groups in the order of the source.\<close>

definition update :: "real \<Rightarrow> real \<Rightarrow> aircraft \<Rightarrow> aircraft" where
  "update dt rnd s = stall dt rnd (before_stall dt s)"

text \<open>
  Repeated calls with one time step: \<open>run n dt r s\<close> is the state after \<open>n\<close> calls from
  \<open>s\<close>, the \<open>i\<close>-th call drawing the random number \<open>r i\<close>.
\<close>

fun run :: "nat \<Rightarrow> real \<Rightarrow> (nat \<Rightarrow> real) \<Rightarrow> aircraft \<Rightarrow> aircraft" where
  "run 0 dt r s = s"
| "run (Suc n) dt r s = update dt (r n) (run n dt r s)"

subsection \<open>The class FlightSimulator\<close>

type_synonym vec3 = "real \<times> real \<times> real"
type_synonym mat3 = "vec3 \<times> vec3 \<times> vec3"

record simulator =
  aircraft :: aircraft
  running :: bool
  paused :: bool
  eye_offset :: vec3
  mouse_sensitivity :: real

text \<open>
  \<^verbatim>\<open>FlightSimulator.__init__\<close>, without the window and the scene: the fields the
  simulation reads, and the start position on the runway.
\<close>

definition FlightSimulator_init :: simulator where
  "FlightSimulator_init =
     \<lparr> aircraft = Aircraft_init\<lparr> x := 500, z := 0, heading := 230 \<rparr>,
       running = True,
       paused = False,
       eye_offset = (0, 0.1, - 0.3),
       mouse_sensitivity = 0.1 \<rparr>"

text \<open>The keys and events that \<^verbatim>\<open>handle_input\<close> tells apart.\<close>

datatype key =
  K_ESCAPE | K_p | K_g | K_f | K_r
  | K_EQUALS | K_PLUS | K_MINUS | K_z | K_x
  | K_UP | K_DOWN | K_LEFT | K_RIGHT | K_OTHER

datatype event = QUIT | KEYDOWN key | MOUSEMOTION int int | OTHER_EVENT

text \<open>Lines 494 to 524: the body of the loop over the queued events.\<close>

fun handle_event :: "simulator \<Rightarrow> event \<Rightarrow> simulator" where
  "handle_event sim QUIT = sim\<lparr> running := False \<rparr>"
| "handle_event sim (KEYDOWN k) =
     (if k = K_ESCAPE then sim\<lparr> running := False \<rparr>
      else if k = K_p then sim\<lparr> paused := \<not> paused sim \<rparr>
      else if k = K_g then
        sim\<lparr> aircraft := (aircraft sim)\<lparr> gear_down := \<not> gear_down (aircraft sim) \<rparr> \<rparr>
      else if k = K_f then
        sim\<lparr> aircraft := (aircraft sim)\<lparr> flaps := (flaps (aircraft sim) + 1) mod 4 \<rparr> \<rparr>
      else if k = K_r then FlightSimulator_init
      else sim)"
| "handle_event sim (MOUSEMOTION dx dy) =
     (if \<not> paused sim then
        sim\<lparr> aircraft := (aircraft sim)
               \<lparr> elevator := - of_int dy * mouse_sensitivity sim / 10,
                 aileron := of_int dx * mouse_sensitivity sim / 10 \<rparr> \<rparr>
      else sim)"
| "handle_event sim OTHER_EVENT = sim"

text \<open>Lines 526 to 560: the keys held down, \<open>keys k\<close> for \<^verbatim>\<open>keys[pygame.k]\<close>.\<close>

definition throttle_control :: "(key \<Rightarrow> bool) \<Rightarrow> aircraft \<Rightarrow> aircraft" where
  "throttle_control keys a =
     (let a1 = (if keys K_EQUALS \<or> keys K_PLUS
                then a\<lparr> throttle := min 1.0 (throttle a + 0.01) \<rparr> else a)
      in if keys K_MINUS then a1\<lparr> throttle := max 0.0 (throttle a1 - 0.01) \<rparr> else a1)"

definition rudder_control :: "(key \<Rightarrow> bool) \<Rightarrow> aircraft \<Rightarrow> aircraft" where
  "rudder_control keys a =
     (if keys K_z then a\<lparr> rudder := - 1.0 \<rparr>
      else if keys K_x then a\<lparr> rudder := 1.0 \<rparr>
      else a\<lparr> rudder := 0.0 \<rparr>)"

definition elevator_control :: "(key \<Rightarrow> bool) \<Rightarrow> aircraft \<Rightarrow> aircraft" where
  "elevator_control keys a =
     (if keys K_UP then a\<lparr> elevator := 1.0 \<rparr>
      else if keys K_DOWN then a\<lparr> elevator := - 1.0 \<rparr>
      else if \<bar>elevator a\<bar> < 0.1 then a\<lparr> elevator := 0.0 \<rparr>
      else a)"

definition aileron_control :: "(key \<Rightarrow> bool) \<Rightarrow> aircraft \<Rightarrow> aircraft" where
  "aileron_control keys a =
     (if keys K_LEFT then a\<lparr> aileron := - 1.0 \<rparr>
      else if keys K_RIGHT then a\<lparr> aileron := 1.0 \<rparr>
      else if \<bar>aileron a\<bar> < 0.1 then a\<lparr> aileron := 0.0 \<rparr>
      else a)"

text \<open>
  \<^verbatim>\<open>FlightSimulator.handle_input\<close>: the queued events in order, then the keys held down.
\<close>

definition handle_input :: "event list \<Rightarrow> (key \<Rightarrow> bool) \<Rightarrow> simulator \<Rightarrow> simulator" where
  "handle_input events keys sim =
     (let sim1 = foldl handle_event sim events
      in sim1\<lparr> aircraft :=
           aileron_control keys (elevator_control keys
             (rudder_control keys (throttle_control keys (aircraft sim1)))) \<rparr>)"

subsection \<open>The eye position of FlightSimulator.render\<close>

text \<open>Matrix product and matrix-vector product of numpy's \<^verbatim>\<open>@\<close> on 3 by 3 arrays.\<close>

fun dot3 :: "vec3 \<Rightarrow> vec3 \<Rightarrow> real" where
  "dot3 (a1, a2, a3) (b1, b2, b3) = a1 * b1 + a2 * b2 + a3 * b3"

fun matvec :: "mat3 \<Rightarrow> vec3 \<Rightarrow> vec3" where
  "matvec (r1, r2, r3) v = (dot3 r1 v, dot3 r2 v, dot3 r3 v)"

fun col1 :: "mat3 \<Rightarrow> vec3" where
  "col1 ((a11, a12, a13), (a21, a22, a23), (a31, a32, a33)) = (a11, a21, a31)"

fun col2 :: "mat3 \<Rightarrow> vec3" where
  "col2 ((a11, a12, a13), (a21, a22, a23), (a31, a32, a33)) = (a12, a22, a32)"

fun col3 :: "mat3 \<Rightarrow> vec3" where
  "col3 ((a11, a12, a13), (a21, a22, a23), (a31, a32, a33)) = (a13, a23, a33)"

fun matmul :: "mat3 \<Rightarrow> mat3 \<Rightarrow> mat3" where
  "matmul (r1, r2, r3) B =
     ((dot3 r1 (col1 B), dot3 r1 (col2 B), dot3 r1 (col3 B)),
      (dot3 r2 (col1 B), dot3 r2 (col2 B), dot3 r2 (col3 B)),
      (dot3 r3 (col1 B), dot3 r3 (col2 B), dot3 r3 (col3 B)))"

text \<open>Lines 577 to 600: the three rotation matrices, from angles in degrees.\<close>

definition R_heading :: "real \<Rightarrow> mat3" where
  "R_heading h =
     (let c_h = cos (radians h); s_h = sin (radians h)
      in ((c_h, 0, - s_h), (0, 1, 0), (s_h, 0, c_h)))"

definition R_pitch :: "real \<Rightarrow> mat3" where
  "R_pitch p =
     (let c_p = cos (radians p); s_p = sin (radians p)
      in ((1, 0, 0), (0, c_p, s_p), (0, - s_p, c_p)))"

definition R_roll :: "real \<Rightarrow> mat3" where
  "R_roll r =
     (let c_r = cos (radians r); s_r = sin (radians r)
      in ((c_r, s_r, 0), (- s_r, c_r, 0), (0, 0, 1)))"

text \<open>Line 603: \<^verbatim>\<open>R = R_roll @ R_pitch @ R_heading\<close>; the operator associates to the left.\<close>

definition camera_rotation :: "aircraft \<Rightarrow> mat3" where
  "camera_rotation a = matmul (matmul (R_roll (roll a)) (R_pitch (pitch a))) (R_heading (heading a))"

text \<open>Lines 605 to 611: the rotated eye offset added to the aircraft position.\<close>

definition render_eye :: "simulator \<Rightarrow> vec3" where
  "render_eye sim =
     (case matvec (camera_rotation (aircraft sim)) (eye_offset sim) of
        (e0, e1, e2) \<Rightarrow>
          (x (aircraft sim) + e0, y (aircraft sim) + e1, z (aircraft sim) + e2))"

subsection \<open>Sessions\<close>

text \<open>
  The main loop is not in the source file at hand.  A session is any sequence of calls of
  \<^verbatim>\<open>handle_input\<close> and \<^verbatim>\<open>Aircraft.update\<close> on the simulator that
  \<^verbatim>\<open>FlightSimulator.__init__\<close> builds: \<open>Input events keys\<close> is a call of
  \<^verbatim>\<open>handle_input\<close> that finds \<open>events\<close> queued and \<open>keys\<close> held down,
  \<open>Update dt rnd\<close> a call of \<^verbatim>\<open>aircraft.update(dt)\<close> that draws \<open>rnd\<close> if it draws.
\<close>

datatype step = Input "event list" "key \<Rightarrow> bool" | Update real real

fun exec :: "simulator \<Rightarrow> step \<Rightarrow> simulator" where
  "exec sim (Input events keys) = handle_input events keys sim"
| "exec sim (Update dt rnd) = sim\<lparr> aircraft := update dt rnd (aircraft sim) \<rparr>"

definition session :: "step list \<Rightarrow> simulator" where
  "session steps = foldl exec FlightSimulator_init steps"

text \<open>The random number is drawn from the half-open unit interval.\<close>

definition random_value :: "real \<Rightarrow> bool" where
  "random_value rnd = (0 \<le> rnd \<and> rnd < 1)"

text \<open>Steps whose time step is positive, and steps whose time step is at most \<open>D\<close>.\<close>

fun positive_dt :: "step \<Rightarrow> bool" where
  "positive_dt (Input events keys) = True"
| "positive_dt (Update dt rnd) = (0 < dt \<and> random_value rnd)"

fun dt_at_most :: "real \<Rightarrow> step \<Rightarrow> bool" where
  "dt_at_most D (Input events keys) = True"
| "dt_at_most D (Update dt rnd) = (dt \<le> D)"

text \<open>
  The ranges that hold whatever the time step.  The heading is bounded by 360 inclusive:
  see the remark on \<^verbatim>\<open>%\<close> above.
\<close>

definition stable_ranges :: "aircraft \<Rightarrow> bool" where
  "stable_ranges a =
     (- 30 \<le> pitch a \<and> pitch a \<le> 30 \<and>
      0 \<le> heading a \<and> heading a \<le> 360 \<and>
      0 \<le> throttle a \<and> throttle a \<le> 1 \<and>
      0 \<le> fuel a \<and> fuel a \<le> 100)"

text \<open>The simulator with the vertical speed of its aircraft overwritten.\<close>

definition with_vertical_speed :: "real \<Rightarrow> simulator \<Rightarrow> simulator" where
  "with_vertical_speed v sim = sim\<lparr> aircraft := (aircraft sim)\<lparr> vertical_speed := v \<rparr> \<rparr>"

section \<open>Basic facts about the statement groups\<close>

lemmas constants_defs =
  CESSNA_MAX_SPEED_def CESSNA_CRUISE_SPEED_def CESSNA_STALL_SPEED_def
  CESSNA_CLIMB_RATE_def CESSNA_DESCENT_RATE_def CESSNA_ROLL_RATE_def
  CESSNA_PITCH_RATE_def CESSNA_YAW_RATE_def KIND_ELEVATION_def
  FEET_TO_METERS_def KNOTS_TO_MPS_def

subsection \<open>What each statement group leaves alone\<close>

lemma integrate_position_frame [simp]:
  "pitch (integrate_position dt s) = pitch s"
  "roll (integrate_position dt s) = roll s"
  "heading (integrate_position dt s) = heading s"
  "airspeed (integrate_position dt s) = airspeed s"
  "vertical_speed (integrate_position dt s) = vertical_speed s"
  "throttle (integrate_position dt s) = throttle s"
  "elevator (integrate_position dt s) = elevator s"
  "aileron (integrate_position dt s) = aileron s"
  "rudder (integrate_position dt s) = rudder s"
  "flaps (integrate_position dt s) = flaps s"
  "rpm (integrate_position dt s) = rpm s"
  "fuel (integrate_position dt s) = fuel s"
  "gear_down (integrate_position dt s) = gear_down s"
  by (simp_all add: integrate_position_def Let_def)

lemma ground_collision_frame [simp]:
  "x (ground_collision s) = x s"
  "z (ground_collision s) = z s"
  "roll (ground_collision s) = roll s"
  "heading (ground_collision s) = heading s"
  "airspeed (ground_collision s) = airspeed s"
  "throttle (ground_collision s) = throttle s"
  "elevator (ground_collision s) = elevator s"
  "aileron (ground_collision s) = aileron s"
  "rudder (ground_collision s) = rudder s"
  "flaps (ground_collision s) = flaps s"
  "rpm (ground_collision s) = rpm s"
  "fuel (ground_collision s) = fuel s"
  "gear_down (ground_collision s) = gear_down s"
  by (simp_all add: ground_collision_def Let_def)

lemma apply_controls_frame [simp]:
  "x (apply_controls dt s) = x s"
  "y (apply_controls dt s) = y s"
  "z (apply_controls dt s) = z s"
  "airspeed (apply_controls dt s) = airspeed s"
  "vertical_speed (apply_controls dt s) = vertical_speed s"
  "throttle (apply_controls dt s) = throttle s"
  "elevator (apply_controls dt s) = elevator s"
  "aileron (apply_controls dt s) = aileron s"
  "rudder (apply_controls dt s) = rudder s"
  "flaps (apply_controls dt s) = flaps s"
  "rpm (apply_controls dt s) = rpm s"
  "fuel (apply_controls dt s) = fuel s"
  "gear_down (apply_controls dt s) = gear_down s"
  by (simp_all add: apply_controls_def Let_def)

lemma limit_attitude_frame [simp]:
  "x (limit_attitude s) = x s"
  "y (limit_attitude s) = y s"
  "z (limit_attitude s) = z s"
  "heading (limit_attitude s) = heading s"
  "airspeed (limit_attitude s) = airspeed s"
  "vertical_speed (limit_attitude s) = vertical_speed s"
  "throttle (limit_attitude s) = throttle s"
  "elevator (limit_attitude s) = elevator s"
  "aileron (limit_attitude s) = aileron s"
  "rudder (limit_attitude s) = rudder s"
  "flaps (limit_attitude s) = flaps s"
  "rpm (limit_attitude s) = rpm s"
  "fuel (limit_attitude s) = fuel s"
  "gear_down (limit_attitude s) = gear_down s"
  by (simp_all add: limit_attitude_def Let_def)

lemma apply_throttle_frame [simp]:
  "x (apply_throttle dt s) = x s"
  "y (apply_throttle dt s) = y s"
  "z (apply_throttle dt s) = z s"
  "pitch (apply_throttle dt s) = pitch s"
  "roll (apply_throttle dt s) = roll s"
  "heading (apply_throttle dt s) = heading s"
  "vertical_speed (apply_throttle dt s) = vertical_speed s"
  "throttle (apply_throttle dt s) = throttle s"
  "elevator (apply_throttle dt s) = elevator s"
  "aileron (apply_throttle dt s) = aileron s"
  "rudder (apply_throttle dt s) = rudder s"
  "flaps (apply_throttle dt s) = flaps s"
  "rpm (apply_throttle dt s) = rpm s"
  "fuel (apply_throttle dt s) = fuel s"
  "gear_down (apply_throttle dt s) = gear_down s"
  by (simp_all add: apply_throttle_def Let_def)

lemma update_rpm_frame [simp]:
  "x (update_rpm dt s) = x s"
  "y (update_rpm dt s) = y s"
  "z (update_rpm dt s) = z s"
  "pitch (update_rpm dt s) = pitch s"
  "roll (update_rpm dt s) = roll s"
  "heading (update_rpm dt s) = heading s"
  "airspeed (update_rpm dt s) = airspeed s"
  "vertical_speed (update_rpm dt s) = vertical_speed s"
  "throttle (update_rpm dt s) = throttle s"
  "elevator (update_rpm dt s) = elevator s"
  "aileron (update_rpm dt s) = aileron s"
  "rudder (update_rpm dt s) = rudder s"
  "flaps (update_rpm dt s) = flaps s"
  "fuel (update_rpm dt s) = fuel s"
  "gear_down (update_rpm dt s) = gear_down s"
  by (simp_all add: update_rpm_def Let_def)

lemma update_vertical_speed_frame [simp]:
  "x (update_vertical_speed dt s) = x s"
  "y (update_vertical_speed dt s) = y s"
  "z (update_vertical_speed dt s) = z s"
  "pitch (update_vertical_speed dt s) = pitch s"
  "roll (update_vertical_speed dt s) = roll s"
  "heading (update_vertical_speed dt s) = heading s"
  "airspeed (update_vertical_speed dt s) = airspeed s"
  "throttle (update_vertical_speed dt s) = throttle s"
  "elevator (update_vertical_speed dt s) = elevator s"
  "aileron (update_vertical_speed dt s) = aileron s"
  "rudder (update_vertical_speed dt s) = rudder s"
  "flaps (update_vertical_speed dt s) = flaps s"
  "rpm (update_vertical_speed dt s) = rpm s"
  "fuel (update_vertical_speed dt s) = fuel s"
  "gear_down (update_vertical_speed dt s) = gear_down s"
  by (simp_all add: update_vertical_speed_def Let_def)

lemma fuel_consumption_frame [simp]:
  "x (fuel_consumption dt s) = x s"
  "y (fuel_consumption dt s) = y s"
  "z (fuel_consumption dt s) = z s"
  "pitch (fuel_consumption dt s) = pitch s"
  "roll (fuel_consumption dt s) = roll s"
  "heading (fuel_consumption dt s) = heading s"
  "airspeed (fuel_consumption dt s) = airspeed s"
  "vertical_speed (fuel_consumption dt s) = vertical_speed s"
  "throttle (fuel_consumption dt s) = throttle s"
  "elevator (fuel_consumption dt s) = elevator s"
  "aileron (fuel_consumption dt s) = aileron s"
  "rudder (fuel_consumption dt s) = rudder s"
  "flaps (fuel_consumption dt s) = flaps s"
  "gear_down (fuel_consumption dt s) = gear_down s"
  by (simp_all add: fuel_consumption_def Let_def)

lemma level_out_frame [simp]:
  "x (level_out s) = x s"
  "y (level_out s) = y s"
  "z (level_out s) = z s"
  "pitch (level_out s) = pitch s"
  "heading (level_out s) = heading s"
  "airspeed (level_out s) = airspeed s"
  "vertical_speed (level_out s) = vertical_speed s"
  "throttle (level_out s) = throttle s"
  "elevator (level_out s) = elevator s"
  "aileron (level_out s) = aileron s"
  "rudder (level_out s) = rudder s"
  "flaps (level_out s) = flaps s"
  "rpm (level_out s) = rpm s"
  "fuel (level_out s) = fuel s"
  "gear_down (level_out s) = gear_down s"
  by (simp_all add: level_out_def Let_def)

lemma stall_frame [simp]:
  "x (stall dt rnd s) = x s"
  "y (stall dt rnd s) = y s"
  "z (stall dt rnd s) = z s"
  "pitch (stall dt rnd s) = pitch s"
  "heading (stall dt rnd s) = heading s"
  "airspeed (stall dt rnd s) = airspeed s"
  "throttle (stall dt rnd s) = throttle s"
  "elevator (stall dt rnd s) = elevator s"
  "aileron (stall dt rnd s) = aileron s"
  "rudder (stall dt rnd s) = rudder s"
  "flaps (stall dt rnd s) = flaps s"
  "rpm (stall dt rnd s) = rpm s"
  "fuel (stall dt rnd s) = fuel s"
  "gear_down (stall dt rnd s) = gear_down s"
  by (simp_all add: stall_def Let_def)

subsection \<open>What each statement group writes\<close>

lemma py_mod_range: "0 < b \<Longrightarrow> 0 \<le> py_mod a b \<and> py_mod a b < b"
  using floor_divide_lower [of b a] floor_divide_upper [of b a]
  by (simp add: py_mod_def algebra_simps)

lemma integrate_position_writes:
  "x (integrate_position dt s) =
     x s + airspeed s * sin (radians (heading s)) * cos (radians (pitch s)) * dt"
  "y (integrate_position dt s) = y s + airspeed s * sin (radians (pitch s)) * dt"
  "z (integrate_position dt s) =
     z s + airspeed s * cos (radians (heading s)) * cos (radians (pitch s)) * dt"
  by (simp_all add: integrate_position_def Let_def)

lemma ground_collision_writes:
  "y (ground_collision s) =
     (if y s < KIND_ELEVATION * FEET_TO_METERS then KIND_ELEVATION * FEET_TO_METERS else y s)"
  "vertical_speed (ground_collision s) =
     (if y s < KIND_ELEVATION * FEET_TO_METERS then 0 else vertical_speed s)"
  "pitch (ground_collision s) =
     (if y s < KIND_ELEVATION * FEET_TO_METERS then max 0 (pitch s) else pitch s)"
  by (simp_all add: ground_collision_def)

lemma apply_controls_writes:
  "roll (apply_controls dt s) = roll s + aileron s * CESSNA_ROLL_RATE * dt"
  "pitch (apply_controls dt s) = pitch s + elevator s * CESSNA_PITCH_RATE * dt"
  "heading (apply_controls dt s) =
     py_mod (heading s + rudder s * CESSNA_YAW_RATE * dt
             + sin (radians (roll s + aileron s * CESSNA_ROLL_RATE * dt)) * dt * 10) 360"
  by (simp_all add: apply_controls_def Let_def)

lemma limit_attitude_writes:
  "pitch (limit_attitude s) = max (- 30) (min 30 (pitch s))"
  "roll (limit_attitude s) = max (- 60) (min 60 (roll s))"
  by (simp_all add: limit_attitude_def)

lemma apply_throttle_writes:
  "airspeed (apply_throttle dt s) =
     airspeed s + (throttle s * CESSNA_MAX_SPEED * KNOTS_TO_MPS - airspeed s) * dt * 0.5"
  by (simp add: apply_throttle_def Let_def)

lemma update_rpm_writes:
  "rpm (update_rpm dt s) = rpm s + (500 + throttle s * 2300 - rpm s) * dt * 2"
  by (simp add: update_rpm_def Let_def)

lemma update_vertical_speed_writes:
  "vertical_speed (update_vertical_speed dt s) =
     vertical_speed s + (target_vs s - vertical_speed s) * dt * 0.5"
  by (simp add: update_vertical_speed_def Let_def)

lemma fuel_consumption_writes:
  "fuel (fuel_consumption dt s) = max 0 (fuel s - throttle s * dt * 0.05)"
  "rpm (fuel_consumption dt s) =
     (if max 0 (fuel s - throttle s * dt * 0.05) \<le> 0 then max 0 (rpm s - 500 * dt) else rpm s)"
  by (simp_all add: fuel_consumption_def Let_def)

lemma level_out_writes:
  "roll (level_out s) = (if \<bar>aileron s\<bar> < 0.1 then roll s * 0.95 else roll s)"
  by (simp add: level_out_def)

lemma stall_writes:
  "vertical_speed (stall dt rnd s) =
     (if airspeed s < CESSNA_STALL_SPEED * KNOTS_TO_MPS * 0.9
      then vertical_speed s - 9.8 * dt else vertical_speed s)"
  "roll (stall dt rnd s) =
     (if airspeed s < CESSNA_STALL_SPEED * KNOTS_TO_MPS * 0.9 \<and> \<bar>roll s\<bar> < 5
      then roll s + (rnd - 0.5) * 10 * dt else roll s)"
  by (simp_all add: stall_def Let_def)

subsection \<open>The fields after one call of update\<close>

lemma update_controls [simp]:
  "throttle (update dt rnd s) = throttle s"
  "elevator (update dt rnd s) = elevator s"
  "aileron (update dt rnd s) = aileron s"
  "rudder (update dt rnd s) = rudder s"
  "flaps (update dt rnd s) = flaps s"
  "gear_down (update dt rnd s) = gear_down s"
  by (simp_all add: update_def before_stall_def)

lemma update_x:
  "x (update dt rnd s) =
     x s + airspeed s * sin (radians (heading s)) * cos (radians (pitch s)) * dt"
  by (simp add: update_def before_stall_def integrate_position_writes)

lemma update_z:
  "z (update dt rnd s) =
     z s + airspeed s * cos (radians (heading s)) * cos (radians (pitch s)) * dt"
  by (simp add: update_def before_stall_def integrate_position_writes)

lemma update_y:
  "y (update dt rnd s) =
     (if y s + airspeed s * sin (radians (pitch s)) * dt < KIND_ELEVATION * FEET_TO_METERS
      then KIND_ELEVATION * FEET_TO_METERS
      else y s + airspeed s * sin (radians (pitch s)) * dt)"
  by (simp add: update_def before_stall_def ground_collision_writes integrate_position_writes)

lemma update_pitch:
  "pitch (update dt rnd s) =
     max (- 30) (min 30
       ((if y s + airspeed s * sin (radians (pitch s)) * dt < KIND_ELEVATION * FEET_TO_METERS
         then max 0 (pitch s) else pitch s)
        + elevator s * CESSNA_PITCH_RATE * dt))"
  by (simp add: update_def before_stall_def limit_attitude_writes apply_controls_writes
      ground_collision_writes integrate_position_writes)

lemma update_heading:
  "heading (update dt rnd s) =
     py_mod (heading s + rudder s * CESSNA_YAW_RATE * dt
             + sin (radians (roll s + aileron s * CESSNA_ROLL_RATE * dt)) * dt * 10) 360"
  by (simp add: update_def before_stall_def apply_controls_writes)

lemma update_airspeed:
  "airspeed (update dt rnd s) =
     airspeed s + (throttle s * CESSNA_MAX_SPEED * KNOTS_TO_MPS - airspeed s) * dt * 0.5"
  by (simp add: update_def before_stall_def apply_throttle_writes)

lemma update_fuel:
  "fuel (update dt rnd s) = max 0 (fuel s - throttle s * dt * 0.05)"
  by (simp add: update_def before_stall_def fuel_consumption_writes)

lemma update_rpm_field:
  "rpm (update dt rnd s) =
     (if max 0 (fuel s - throttle s * dt * 0.05) \<le> 0
      then max 0 (rpm s + (500 + throttle s * 2300 - rpm s) * dt * 2 - 500 * dt)
      else rpm s + (500 + throttle s * 2300 - rpm s) * dt * 2)"
  by (simp add: update_def before_stall_def fuel_consumption_writes update_rpm_writes)

lemma before_stall_airspeed:
  "airspeed (before_stall dt s) =
     airspeed s + (throttle s * CESSNA_MAX_SPEED * KNOTS_TO_MPS - airspeed s) * dt * 0.5"
  by (simp add: before_stall_def apply_throttle_writes)

lemma before_stall_roll:
  "roll (before_stall dt s) =
     (if \<bar>aileron s\<bar> < 0.1
      then max (- 60) (min 60 (roll s + aileron s * CESSNA_ROLL_RATE * dt)) * 0.95
      else max (- 60) (min 60 (roll s + aileron s * CESSNA_ROLL_RATE * dt)))"
  by (simp add: before_stall_def level_out_writes limit_attitude_writes apply_controls_writes)

lemma clamp60_bound: "\<bar>max (- 60) (min 60 (t::real))\<bar> \<le> 60"
  by (simp add: abs_le_iff max_def min_def)

lemma level_scale_bound: "\<bar>t::real\<bar> \<le> 60 \<Longrightarrow> \<bar>t * 0.95\<bar> \<le> 60"
  by (simp add: abs_mult)

lemma before_stall_roll_bound: "\<bar>roll (before_stall dt s)\<bar> \<le> 60"
  using clamp60_bound [of "roll s + aileron s * CESSNA_ROLL_RATE * dt"]
  by (simp only: before_stall_roll level_scale_bound split: if_split) simp

lemma target_vs_cong:
  "pitch a = pitch b \<Longrightarrow> airspeed a = airspeed b \<Longrightarrow> target_vs a = target_vs b"
  by (simp add: target_vs_def)

lemma update_vertical_speed_field:
  "vertical_speed (update dt rnd s) =
     (let v0 = (if y s + airspeed s * sin (radians (pitch s)) * dt < KIND_ELEVATION * FEET_TO_METERS
                then 0 else vertical_speed s);
          v1 = v0 + (target_vs (update dt rnd s) - v0) * dt * 0.5
      in if airspeed (update dt rnd s) < CESSNA_STALL_SPEED * KNOTS_TO_MPS * 0.9
         then v1 - 9.8 * dt else v1)"
proof -
  let ?c = "update_rpm dt (apply_throttle dt (limit_attitude (apply_controls dt
              (ground_collision (integrate_position dt s)))))"
  have t: "target_vs ?c = target_vs (update dt rnd s)"
    by (rule target_vs_cong) (simp_all add: update_def before_stall_def)
  have a: "airspeed (before_stall dt s) = airspeed (update dt rnd s)"
    by (simp add: update_def)
  have "vertical_speed (update dt rnd s) =
     (if airspeed (before_stall dt s) < CESSNA_STALL_SPEED * KNOTS_TO_MPS * 0.9
      then vertical_speed (update_vertical_speed dt ?c) - 9.8 * dt
      else vertical_speed (update_vertical_speed dt ?c))"
    by (simp add: update_def stall_writes before_stall_def)
  then show ?thesis
    by (simp add: a t update_vertical_speed_writes ground_collision_writes
        integrate_position_writes Let_def)
qed

section \<open>The ranges of the state fields\<close>

lemma throttle_control_frame [simp]:
  "x (throttle_control keys a) = x a"
  "y (throttle_control keys a) = y a"
  "z (throttle_control keys a) = z a"
  "pitch (throttle_control keys a) = pitch a"
  "roll (throttle_control keys a) = roll a"
  "heading (throttle_control keys a) = heading a"
  "airspeed (throttle_control keys a) = airspeed a"
  "vertical_speed (throttle_control keys a) = vertical_speed a"
  "elevator (throttle_control keys a) = elevator a"
  "aileron (throttle_control keys a) = aileron a"
  "rudder (throttle_control keys a) = rudder a"
  "flaps (throttle_control keys a) = flaps a"
  "rpm (throttle_control keys a) = rpm a"
  "fuel (throttle_control keys a) = fuel a"
  "gear_down (throttle_control keys a) = gear_down a"
  by (simp_all add: throttle_control_def Let_def)

lemma rudder_control_frame [simp]:
  "x (rudder_control keys a) = x a"
  "y (rudder_control keys a) = y a"
  "z (rudder_control keys a) = z a"
  "pitch (rudder_control keys a) = pitch a"
  "roll (rudder_control keys a) = roll a"
  "heading (rudder_control keys a) = heading a"
  "airspeed (rudder_control keys a) = airspeed a"
  "vertical_speed (rudder_control keys a) = vertical_speed a"
  "throttle (rudder_control keys a) = throttle a"
  "elevator (rudder_control keys a) = elevator a"
  "aileron (rudder_control keys a) = aileron a"
  "flaps (rudder_control keys a) = flaps a"
  "rpm (rudder_control keys a) = rpm a"
  "fuel (rudder_control keys a) = fuel a"
  "gear_down (rudder_control keys a) = gear_down a"
  by (simp_all add: rudder_control_def Let_def)

lemma elevator_control_frame [simp]:
  "x (elevator_control keys a) = x a"
  "y (elevator_control keys a) = y a"
  "z (elevator_control keys a) = z a"
  "pitch (elevator_control keys a) = pitch a"
  "roll (elevator_control keys a) = roll a"
  "heading (elevator_control keys a) = heading a"
  "airspeed (elevator_control keys a) = airspeed a"
  "vertical_speed (elevator_control keys a) = vertical_speed a"
  "throttle (elevator_control keys a) = throttle a"
  "aileron (elevator_control keys a) = aileron a"
  "rudder (elevator_control keys a) = rudder a"
  "flaps (elevator_control keys a) = flaps a"
  "rpm (elevator_control keys a) = rpm a"
  "fuel (elevator_control keys a) = fuel a"
  "gear_down (elevator_control keys a) = gear_down a"
  by (simp_all add: elevator_control_def Let_def)

lemma aileron_control_frame [simp]:
  "x (aileron_control keys a) = x a"
  "y (aileron_control keys a) = y a"
  "z (aileron_control keys a) = z a"
  "pitch (aileron_control keys a) = pitch a"
  "roll (aileron_control keys a) = roll a"
  "heading (aileron_control keys a) = heading a"
  "airspeed (aileron_control keys a) = airspeed a"
  "vertical_speed (aileron_control keys a) = vertical_speed a"
  "throttle (aileron_control keys a) = throttle a"
  "elevator (aileron_control keys a) = elevator a"
  "rudder (aileron_control keys a) = rudder a"
  "flaps (aileron_control keys a) = flaps a"
  "rpm (aileron_control keys a) = rpm a"
  "fuel (aileron_control keys a) = fuel a"
  "gear_down (aileron_control keys a) = gear_down a"
  by (simp_all add: aileron_control_def Let_def)

lemma throttle_control_range:
  "0 \<le> throttle a \<Longrightarrow> throttle a \<le> 1 \<Longrightarrow>
   0 \<le> throttle (throttle_control keys a) \<and> throttle (throttle_control keys a) \<le> 1"
  by (auto simp add: throttle_control_def Let_def min_def max_def)

lemma update_airspeed_nonneg:
  assumes "0 < dt" "dt \<le> 2" "0 \<le> throttle s" "0 \<le> airspeed s"
  shows "0 \<le> airspeed (update dt rnd s)"
proof -
  have "airspeed (update dt rnd s) =
          airspeed s * (1 - dt / 2) + throttle s * CESSNA_MAX_SPEED * KNOTS_TO_MPS * (dt / 2)"
    by (simp add: update_airspeed algebra_simps)
  moreover have "0 \<le> airspeed s * (1 - dt / 2)" using assms by simp
  moreover have "0 \<le> throttle s * CESSNA_MAX_SPEED * KNOTS_TO_MPS * (dt / 2)"
    using assms by (simp add: constants_defs)
  ultimately show ?thesis by simp
qed

lemma stable_ranges_init: "stable_ranges (aircraft FlightSimulator_init)"
  by (simp add: stable_ranges_def FlightSimulator_init_def Aircraft_init_def)

lemma stable_ranges_handle_event:
  "stable_ranges (aircraft sim) \<Longrightarrow> stable_ranges (aircraft (handle_event sim e))"
proof (cases e)
  case (KEYDOWN k)
  then show "stable_ranges (aircraft sim) \<Longrightarrow> ?thesis"
    by (simp add: stable_ranges_init) (simp add: stable_ranges_def)
qed (simp_all add: stable_ranges_def)

lemma stable_ranges_events:
  "stable_ranges (aircraft sim) \<Longrightarrow> stable_ranges (aircraft (foldl handle_event sim es))"
  by (induction es arbitrary: sim) (simp_all add: stable_ranges_handle_event)

lemma stable_ranges_controls:
  "stable_ranges a \<Longrightarrow>
   stable_ranges (aileron_control keys (elevator_control keys
     (rudder_control keys (throttle_control keys a))))"
  using throttle_control_range [of a keys] by (simp add: stable_ranges_def)

lemma stable_ranges_handle_input:
  "stable_ranges (aircraft sim) \<Longrightarrow> stable_ranges (aircraft (handle_input events keys sim))"
  by (simp add: handle_input_def Let_def stable_ranges_controls stable_ranges_events)

lemma stable_ranges_update:
  assumes "0 < dt" and "stable_ranges s"
  shows "stable_ranges (update dt rnd s)"
proof -
  have p: "- 30 \<le> pitch (update dt rnd s) \<and> pitch (update dt rnd s) \<le> 30"
    by (simp add: update_pitch)
  have "0 \<le> heading (update dt rnd s) \<and> heading (update dt rnd s) < 360"
    by (simp add: update_heading py_mod_range)
  then have h: "0 \<le> heading (update dt rnd s) \<and> heading (update dt rnd s) \<le> 360"
    by simp
  have f: "0 \<le> fuel (update dt rnd s) \<and> fuel (update dt rnd s) \<le> 100"
  proof -
    have "0 \<le> throttle s * dt * 0.05"
      using assms by (intro mult_nonneg_nonneg) (simp_all add: stable_ranges_def)
    moreover have "fuel s \<le> 100" using assms by (simp add: stable_ranges_def)
    ultimately have "fuel s - throttle s * dt * 0.05 \<le> 100" by linarith
    then show ?thesis by (simp only: update_fuel) simp
  qed
  have t: "0 \<le> throttle (update dt rnd s) \<and> throttle (update dt rnd s) \<le> 1"
    using assms by (simp add: stable_ranges_def)
  from p h f t show ?thesis by (simp add: stable_ranges_def)
qed

lemma stable_ranges_exec:
  "positive_dt st \<Longrightarrow> stable_ranges (aircraft sim) \<Longrightarrow> stable_ranges (aircraft (exec sim st))"
  by (cases st) (simp_all add: stable_ranges_handle_input stable_ranges_update)

lemma stable_ranges_steps:
  "list_all positive_dt steps \<Longrightarrow> stable_ranges (aircraft sim) \<Longrightarrow>
   stable_ranges (aircraft (foldl exec sim steps))"
  by (induction steps arbitrary: sim) (simp_all add: stable_ranges_exec)

text \<open>The input handler keeps roll and airspeed, or resets them to 0.\<close>

lemma handle_event_roll_airspeed:
  "(roll (aircraft (handle_event sim e)) = roll (aircraft sim)
      \<or> roll (aircraft (handle_event sim e)) = 0)
   \<and> (airspeed (aircraft (handle_event sim e)) = airspeed (aircraft sim)
      \<or> airspeed (aircraft (handle_event sim e)) = 0)"
  by (cases e) (simp_all add: FlightSimulator_init_def Aircraft_init_def)

lemma events_roll_airspeed:
  "(roll (aircraft (foldl handle_event sim es)) = roll (aircraft sim)
      \<or> roll (aircraft (foldl handle_event sim es)) = 0)
   \<and> (airspeed (aircraft (foldl handle_event sim es)) = airspeed (aircraft sim)
      \<or> airspeed (aircraft (foldl handle_event sim es)) = 0)"
proof (induction es arbitrary: sim)
  case Nil
  show ?case by simp
next
  case (Cons e es)
  from Cons.IH [of "handle_event sim e"] handle_event_roll_airspeed [of sim e]
  show ?case by auto
qed

lemma handle_input_roll_airspeed:
  "(roll (aircraft (handle_input events keys sim)) = roll (aircraft sim)
      \<or> roll (aircraft (handle_input events keys sim)) = 0)
   \<and> (airspeed (aircraft (handle_input events keys sim)) = airspeed (aircraft sim)
      \<or> airspeed (aircraft (handle_input events keys sim)) = 0)"
  using events_roll_airspeed [of sim events] by (simp add: handle_input_def Let_def)

lemma update_roll_range:
  assumes "0 < dt" "dt \<le> 11" "random_value rnd"
  shows "- 60 \<le> roll (update dt rnd s) \<and> roll (update dt rnd s) \<le> 60"
proof -
  have b: "\<bar>roll (before_stall dt s)\<bar> \<le> 60" by (rule before_stall_roll_bound)
  have r: "- 55 \<le> (rnd - 0.5) * 10 * dt \<and> (rnd - 0.5) * 10 * dt \<le> 55"
  proof -
    define u where "u = (rnd - 0.5) * 10"
    have u: "- 5 \<le> u" "u \<le> 5"
      using assms(3) by (simp_all add: u_def random_value_def)
    have "u * dt \<le> 5 * dt" using u assms(1) by (intro mult_right_mono) simp_all
    moreover have "- 5 * dt \<le> u * dt" using u assms(1) by (intro mult_right_mono) simp_all
    ultimately have "- 55 \<le> u * dt \<and> u * dt \<le> 55" using assms(2) by simp
    then show ?thesis by (simp only: u_def)
  qed
  show ?thesis
  proof (cases "airspeed (before_stall dt s) < CESSNA_STALL_SPEED * KNOTS_TO_MPS * 0.9
                \<and> \<bar>roll (before_stall dt s)\<bar> < 5")
    case True
    then have "roll (update dt rnd s) = roll (before_stall dt s) + (rnd - 0.5) * 10 * dt"
      by (simp add: update_def stall_writes)
    moreover from True have "- 5 < roll (before_stall dt s)" "roll (before_stall dt s) < 5"
      by (simp_all add: abs_less_iff)
    ultimately show ?thesis using r by linarith
  next
    case False
    then have "roll (update dt rnd s) = roll (before_stall dt s)"
      by (simp only: update_def stall_writes if_False)
    then show ?thesis using b by (simp add: abs_le_iff)
  qed
qed

lemma roll_range_exec:
  assumes "positive_dt st" and "dt_at_most 11 st"
    and "- 60 \<le> roll (aircraft sim) \<and> roll (aircraft sim) \<le> 60"
  shows "- 60 \<le> roll (aircraft (exec sim st)) \<and> roll (aircraft (exec sim st)) \<le> 60"
proof (cases st)
  case (Input events keys)
  with assms(3) handle_input_roll_airspeed [of events keys sim] show ?thesis by auto
next
  case (Update dt rnd)
  with assms(1,2) update_roll_range [of dt rnd "aircraft sim"] show ?thesis by simp
qed

lemma roll_range_steps:
  "list_all positive_dt steps \<Longrightarrow> list_all (dt_at_most 11) steps \<Longrightarrow>
   - 60 \<le> roll (aircraft sim) \<and> roll (aircraft sim) \<le> 60 \<Longrightarrow>
   - 60 \<le> roll (aircraft (foldl exec sim steps))
   \<and> roll (aircraft (foldl exec sim steps)) \<le> 60"
proof (induction steps arbitrary: sim)
  case Nil
  then show ?case by simp
next
  case (Cons st steps)
  from Cons.prems have "- 60 \<le> roll (aircraft (exec sim st)) \<and> roll (aircraft (exec sim st)) \<le> 60"
    by (intro roll_range_exec) simp_all
  with Cons.prems Cons.IH [of "exec sim st"] show ?case by simp
qed

lemma airspeed_exec:
  assumes "positive_dt st" and "dt_at_most 2 st"
    and "stable_ranges (aircraft sim)" and "0 \<le> airspeed (aircraft sim)"
  shows "0 \<le> airspeed (aircraft (exec sim st))"
proof (cases st)
  case (Input events keys)
  with assms(4) handle_input_roll_airspeed [of events keys sim] show ?thesis by auto
next
  case (Update dt rnd)
  with assms have "0 \<le> airspeed (update dt rnd (aircraft sim))"
    by (intro update_airspeed_nonneg) (simp_all add: stable_ranges_def)
  with Update show ?thesis by simp
qed

lemma airspeed_steps:
  "list_all positive_dt steps \<Longrightarrow> list_all (dt_at_most 2) steps \<Longrightarrow>
   stable_ranges (aircraft sim) \<Longrightarrow> 0 \<le> airspeed (aircraft sim) \<Longrightarrow>
   0 \<le> airspeed (aircraft (foldl exec sim steps))"
proof (induction steps arbitrary: sim)
  case Nil
  then show ?case by simp
next
  case (Cons st steps)
  from Cons.prems have "stable_ranges (aircraft (exec sim st))"
    by (intro stable_ranges_exec) simp_all
  moreover from Cons.prems have "0 \<le> airspeed (aircraft (exec sim st))"
    by (intro airspeed_exec) simp_all
  ultimately show ?case using Cons.prems Cons.IH [of "exec sim st"] by simp
qed

section \<open>The camera\<close>

lemma matvec_matmul: "matvec (matmul A B) v = matvec A (matvec B v)"
proof -
  obtain a1 a2 a3 where A: "A = (a1, a2, a3)" by (cases A)
  obtain a11 a12 a13 where a1: "a1 = (a11, a12, a13)" by (cases a1)
  obtain a21 a22 a23 where a2: "a2 = (a21, a22, a23)" by (cases a2)
  obtain a31 a32 a33 where a3: "a3 = (a31, a32, a33)" by (cases a3)
  obtain b11 b12 b13 b21 b22 b23 b31 b32 b33
    where B: "B = ((b11, b12, b13), (b21, b22, b23), (b31, b32, b33))"
    by (cases B) auto
  obtain v1 v2 v3 where v: "v = (v1, v2, v3)" by (cases v)
  show ?thesis
    by (simp add: A a1 a2 a3 B v algebra_simps)
qed

lemma handle_input_no_events:
  "aircraft (handle_input [] keys sim) =
     aileron_control keys (elevator_control keys
       (rudder_control keys (throttle_control keys (aircraft sim))))"
  by (simp add: handle_input_def Let_def)

section \<open>Ground collision and heading wrap-around\<close>

lemma update_forgets_vertical_speed_on_collision:
  assumes "y s + airspeed s * sin (radians (pitch s)) * dt < KIND_ELEVATION * FEET_TO_METERS"
  shows "ground_collision (integrate_position dt (s\<lparr> vertical_speed := v \<rparr>))
         = ground_collision (integrate_position dt s)"
  using assms by (simp add: ground_collision_def integrate_position_def Let_def)

lemma sin_radians_minus_30: "sin (radians (- 30)) = - 1 / 2"
proof -
  have "radians (- 30) = - (pi / 6)" by (simp add: radians_def)
  then show ?thesis by (simp add: sin_30)
qed

lemma py_mod_wrap_once: "0 < b \<Longrightarrow> b \<le> a \<Longrightarrow> a < 2 * b \<Longrightarrow> py_mod a b = a - b"
proof -
  assume b: "0 < b" and 1: "b \<le> a" and 2: "a < 2 * b"
  have "\<lfloor>a / b\<rfloor> = 1"
  proof (rule floor_unique)
    show "of_int 1 \<le> a / b" using b 1 by (simp add: pos_le_divide_eq)
    show "a / b < of_int 1 + 1" using b 2 by (simp add: pos_divide_less_eq)
  qed
  then show ?thesis by (simp add: py_mod_def)
qed

section \<open>Repeated calls with one time step\<close>

lemma run_throttle [simp]: "throttle (run n dt r s) = throttle s"
  by (induction n) simp_all

lemma lag_step:
  fixes a T dt :: real
  shows "a + (T - a) * dt * 0.5 = T + (a - T) * (1 - dt * 0.5)"
  by (simp add: field_simps)

lemma run_airspeed:
  "airspeed (run n dt r s) =
     throttle s * CESSNA_MAX_SPEED * KNOTS_TO_MPS
     + (airspeed s - throttle s * CESSNA_MAX_SPEED * KNOTS_TO_MPS) * (1 - dt * 0.5) ^ n"
proof (induction n)
  case 0
  show ?case by simp
next
  case (Suc n)
  define T where "T = throttle s * CESSNA_MAX_SPEED * KNOTS_TO_MPS"
  define q where "q = 1 - dt * 0.5"
  have ih: "airspeed (run n dt r s) = T + (airspeed s - T) * q ^ n"
    using Suc.IH by (simp only: T_def q_def)
  have "airspeed (run (Suc n) dt r s) =
          airspeed (run n dt r s) + (T - airspeed (run n dt r s)) * dt * 0.5"
    by (simp add: update_airspeed T_def)
  also have "\<dots> = T + (airspeed (run n dt r s) - T) * q"
    unfolding q_def by (rule lag_step)
  also have "\<dots> = T + (airspeed s - T) * q ^ Suc n"
    by (simp add: ih mult.assoc mult.commute)
  finally show ?case by (simp only: T_def q_def)
qed

lemma geometric_tendsto:
  fixes q c t :: real
  assumes "0 \<le> q" "q < 1"
  shows "(\<lambda>n. t + c * q ^ n) \<longlonglongrightarrow> t"
proof -
  have "(\<lambda>n. q ^ n) \<longlonglongrightarrow> 0" using assms by (rule LIMSEQ_realpow_zero)
  then have "(\<lambda>n. c * q ^ n) \<longlonglongrightarrow> c * 0" by (rule tendsto_mult_left)
  then have "(\<lambda>n. t + c * q ^ n) \<longlonglongrightarrow> t + c * 0"
    by (rule tendsto_add [OF tendsto_const])
  then show ?thesis by simp
qed

subsection \<open>Fuel and the empty tank\<close>

lemma run_fuel_idle: "throttle s = 0 \<Longrightarrow> 0 \<le> fuel s \<Longrightarrow> fuel (run n dt r s) = fuel s"
  by (induction n) (simp_all add: update_fuel)

lemma burn_step:
  fixes f c :: real
  assumes "0 < c"
  shows "max 0 (max 0 (f - real n * c) - c) = max 0 (f - real (Suc n) * c)"
  using assms by (simp add: max_def algebra_simps)

lemma run_fuel_full:
  assumes "throttle s = 1" and "0 < dt" and "0 \<le> fuel s"
  shows "fuel (run n dt r s) = max 0 (fuel s - real n * (dt * 0.05))"
proof (induction n)
  case 0
  show ?case using assms(3) by simp
next
  case (Suc n)
  have c: "0 < dt * 0.05" using assms(2) by simp
  have "fuel (run (Suc n) dt r s) = max 0 (fuel (run n dt r s) - dt * 0.05)"
    using assms(1) by (simp add: update_fuel)
  also have "\<dots> = max 0 (max 0 (fuel s - real n * (dt * 0.05)) - dt * 0.05)"
    by (simp only: Suc.IH)
  also have "\<dots> = max 0 (fuel s - real (Suc n) * (dt * 0.05))"
    using c by (rule burn_step)
  finally show ?case .
qed

lemma run_fuel_full_step:
  assumes "throttle s = 1" and "0 < dt"
  shows "fuel (run (Suc n) dt r s) = max 0 (fuel (run n dt r s) - dt * 0.05)"
  using assms(1) by (simp add: update_fuel)

lemma empty_tank_rpm:
  assumes "throttle s = 1" and "fuel s = 0" and "0 < dt"
  shows "rpm (update dt rnd s) = max 0 (rpm s + (500 + 1 * 2300 - rpm s) * dt * 2 - 500 * dt)"
  using assms by (simp add: update_rpm_field)

lemma empty_tank_rpm_small_dt:
  assumes "throttle s = 1" and "fuel s = 0" and "0 < dt" and "dt \<le> 1 / 2" and "0 \<le> rpm s"
  shows "rpm (update dt rnd s) = 2550 + (rpm s - 2550) * (1 - 2 * dt)"
    and "0 \<le> rpm (update dt rnd s)"
proof -
  have e: "rpm s + (500 + 1 * 2300 - rpm s) * dt * 2 - 500 * dt
           = rpm s * (1 - 2 * dt) + 5100 * dt"
    by (simp add: algebra_simps)
  have "0 \<le> rpm s * (1 - 2 * dt)" using assms by (intro mult_nonneg_nonneg) simp_all
  then have n: "0 \<le> rpm s * (1 - 2 * dt) + 5100 * dt" using assms(3) by simp
  have "rpm (update dt rnd s) = rpm s * (1 - 2 * dt) + 5100 * dt"
    using n by (simp only: empty_tank_rpm [OF assms(1-3)] e max_def) simp
  then show "rpm (update dt rnd s) = 2550 + (rpm s - 2550) * (1 - 2 * dt)"
    and "0 \<le> rpm (update dt rnd s)"
    using n by (simp_all add: algebra_simps)
qed

lemma run_empty_tank:
  assumes "throttle s = 1" and "fuel s = 0" and "0 < dt" and "dt \<le> 1 / 2" and "0 \<le> rpm s"
  shows "fuel (run n dt r s) = 0 \<and> 0 \<le> rpm (run n dt r s)
         \<and> rpm (run n dt r s) = 2550 + (rpm s - 2550) * (1 - 2 * dt) ^ n"
proof (induction n)
  case 0
  show ?case using assms by simp
next
  case (Suc n)
  let ?t = "run n dt r s"
  have t: "throttle ?t = 1" using assms(1) by simp
  from Suc.IH have f: "fuel ?t = 0" and p: "0 \<le> rpm ?t"
    and c: "rpm ?t = 2550 + (rpm s - 2550) * (1 - 2 * dt) ^ n" by simp_all
  have "fuel (run (Suc n) dt r s) = 0"
    using f t assms(3) by (simp add: update_fuel)
  moreover have "0 \<le> rpm (run (Suc n) dt r s)"
    using empty_tank_rpm_small_dt(2) [OF t f assms(3,4) p] by simp
  moreover have "rpm (run (Suc n) dt r s) = 2550 + (rpm ?t - 2550) * (1 - 2 * dt)"
    using empty_tank_rpm_small_dt(1) [OF t f assms(3,4) p] by simp
  then have "rpm (run (Suc n) dt r s) = 2550 + (rpm s - 2550) * (1 - 2 * dt) ^ Suc n"
    by (simp add: c mult.assoc mult.commute)
  ultimately show ?case by simp
qed

text \<open>
  What the code does with the fuel and with an empty tank, from a state with fuel not below
  0 and with \<open>dt > 0\<close>.  With throttle 0 the fuel stays as it is; with throttle 1 the fuel
  after \<open>n\<close> calls is \<open>max 0 (fuel - n * dt * 0.05)\<close>, strictly less after each call
  while it is positive, and 0 for good once it is 0.  With an empty tank and throttle 1
  each call first moves the RPM toward the throttle target 2800 and then takes
  \<open>500 * dt\<close> off, not below 0; for \<open>dt \<le> 1/2\<close> the RPM therefore settles at 2550.
\<close>

lemma fuel_burn_and_empty_tank:
  assumes "0 < dt" and "0 \<le> fuel s"
  shows "(throttle s = 0 \<longrightarrow> fuel (run n dt r s) = fuel s)
     \<and> (throttle s = 1 \<longrightarrow>
          fuel (run n dt r s) = max 0 (fuel s - real n * (dt * 0.05))
          \<and> (0 < fuel (run n dt r s) \<longrightarrow> fuel (run (Suc n) dt r s) < fuel (run n dt r s))
          \<and> (fuel (run n dt r s) = 0 \<longrightarrow> fuel (run (Suc n) dt r s) = 0))
     \<and> (throttle s = 1 \<and> fuel s = 0 \<longrightarrow>
          rpm (update dt rnd s) = max 0 (rpm s + (500 + 1 * 2300 - rpm s) * dt * 2 - 500 * dt)
          \<and> (dt \<le> 1 / 2 \<and> 0 \<le> rpm s \<longrightarrow>
               rpm (run n dt r s) = 2550 + (rpm s - 2550) * (1 - 2 * dt) ^ n
               \<and> (\<lambda>n. rpm (run n dt r s)) \<longlonglongrightarrow> 2550))"
proof -
  have idle: "fuel (run n dt r s) = fuel s" if "throttle s = 0"
    using that assms(2) by (rule run_fuel_idle)
  have full: "fuel (run n dt r s) = max 0 (fuel s - real n * (dt * 0.05))
          \<and> (0 < fuel (run n dt r s) \<longrightarrow> fuel (run (Suc n) dt r s) < fuel (run n dt r s))
          \<and> (fuel (run n dt r s) = 0 \<longrightarrow> fuel (run (Suc n) dt r s) = 0)" if "throttle s = 1"
  proof -
    have s: "fuel (run (Suc n) dt r s) = max 0 (fuel (run n dt r s) - dt * 0.05)"
      using that assms(1) by (rule run_fuel_full_step)
    have "0 < dt * 0.05" using assms(1) by simp
    then have "0 < fuel (run n dt r s) \<longrightarrow> fuel (run (Suc n) dt r s) < fuel (run n dt r s)"
      and "fuel (run n dt r s) = 0 \<longrightarrow> fuel (run (Suc n) dt r s) = 0"
      unfolding s by (simp_all add: max_def)
    with run_fuel_full [OF that assms(1,2)] show ?thesis by blast
  qed
  have empty: "rpm (update dt rnd s) = max 0 (rpm s + (500 + 1 * 2300 - rpm s) * dt * 2 - 500 * dt)
          \<and> (dt \<le> 1 / 2 \<and> 0 \<le> rpm s \<longrightarrow>
               rpm (run n dt r s) = 2550 + (rpm s - 2550) * (1 - 2 * dt) ^ n
               \<and> (\<lambda>n. rpm (run n dt r s)) \<longlonglongrightarrow> 2550)"
    if t: "throttle s = 1" and f: "fuel s = 0"
  proof -
    have conv: "rpm (run n dt r s) = 2550 + (rpm s - 2550) * (1 - 2 * dt) ^ n
               \<and> (\<lambda>n. rpm (run n dt r s)) \<longlonglongrightarrow> 2550"
      if d: "dt \<le> 1 / 2" and p: "0 \<le> rpm s"
    proof -
      have c: "rpm (run m dt r s) = 2550 + (rpm s - 2550) * (1 - 2 * dt) ^ m" for m
        using run_empty_tank [OF t f assms(1) d p, of m r] by simp
      have "0 \<le> 1 - 2 * dt" "1 - 2 * dt < 1" using d assms(1) by simp_all
      then have "(\<lambda>n. 2550 + (rpm s - 2550) * (1 - 2 * dt) ^ n) \<longlonglongrightarrow> 2550"
        by (rule geometric_tendsto)
      with c show ?thesis by simp
    qed
    with empty_tank_rpm [OF t f assms(1), of rnd] show ?thesis by blast
  qed
  from idle full empty show ?thesis by blast
qed

lemma fuel_burn_and_empty_tank_example:
  "fuel (run 3 1 (\<lambda>i. 0) Aircraft_init) = 100
   \<and> fuel (run 3 1 (\<lambda>i. 0) (Aircraft_init\<lparr> throttle := 1 \<rparr>)) = 99.85
   \<and> (\<lambda>n. rpm (run n (1 / 10) (\<lambda>i. 0) (Aircraft_init\<lparr> throttle := 1, fuel := 0 \<rparr>)))
        \<longlonglongrightarrow> 2550"
  using fuel_burn_and_empty_tank [of 1 Aircraft_init 3 "\<lambda>i. 0" 0]
    fuel_burn_and_empty_tank [of 1 "Aircraft_init\<lparr> throttle := 1 \<rparr>" 3 "\<lambda>i. 0" 0]
    fuel_burn_and_empty_tank [of "1 / 10" "Aircraft_init\<lparr> throttle := 1, fuel := 0 \<rparr>" 3 "\<lambda>i. 0" 0]
  by (simp add: Aircraft_init_def)

section \<open>The vertical speed is write-only\<close>

lemma target_vs_ignores_vertical_speed [simp]:
  "target_vs (a\<lparr> vertical_speed := v \<rparr>) = target_vs a"
  by (simp add: target_vs_def)

lemma stages_vertical_speed:
  "integrate_position dt (a\<lparr> vertical_speed := v \<rparr>)
     = (integrate_position dt a)\<lparr> vertical_speed := v \<rparr>"
  "ground_collision (a\<lparr> vertical_speed := v \<rparr>)
     = (ground_collision a)\<lparr> vertical_speed :=
         (if y a < KIND_ELEVATION * FEET_TO_METERS then 0 else v) \<rparr>"
  "apply_controls dt (a\<lparr> vertical_speed := v \<rparr>) = (apply_controls dt a)\<lparr> vertical_speed := v \<rparr>"
  "limit_attitude (a\<lparr> vertical_speed := v \<rparr>) = (limit_attitude a)\<lparr> vertical_speed := v \<rparr>"
  "apply_throttle dt (a\<lparr> vertical_speed := v \<rparr>) = (apply_throttle dt a)\<lparr> vertical_speed := v \<rparr>"
  "update_rpm dt (a\<lparr> vertical_speed := v \<rparr>) = (update_rpm dt a)\<lparr> vertical_speed := v \<rparr>"
  "update_vertical_speed dt (a\<lparr> vertical_speed := v \<rparr>)
     = (update_vertical_speed dt a)\<lparr> vertical_speed := v + (target_vs a - v) * dt * 0.5 \<rparr>"
  "fuel_consumption dt (a\<lparr> vertical_speed := v \<rparr>)
     = (fuel_consumption dt a)\<lparr> vertical_speed := v \<rparr>"
  "level_out (a\<lparr> vertical_speed := v \<rparr>) = (level_out a)\<lparr> vertical_speed := v \<rparr>"
  "stall dt rnd (a\<lparr> vertical_speed := v \<rparr>)
     = (stall dt rnd a)\<lparr> vertical_speed :=
         (if airspeed a < CESSNA_STALL_SPEED * KNOTS_TO_MPS * 0.9 then v - 9.8 * dt else v) \<rparr>"
  by (simp_all add: integrate_position_def ground_collision_def apply_controls_def
      limit_attitude_def apply_throttle_def update_rpm_def update_vertical_speed_def
      fuel_consumption_def level_out_def stall_def Let_def)

lemma update_vertical_speed_only:
  "\<exists>w. update dt rnd (a\<lparr> vertical_speed := v \<rparr>) = (update dt rnd a)\<lparr> vertical_speed := w \<rparr>"
  by (simp only: update_def before_stall_def stages_vertical_speed) blast

lemma controls_vertical_speed:
  "throttle_control keys (a\<lparr> vertical_speed := v \<rparr>)
     = (throttle_control keys a)\<lparr> vertical_speed := v \<rparr>"
  "rudder_control keys (a\<lparr> vertical_speed := v \<rparr>)
     = (rudder_control keys a)\<lparr> vertical_speed := v \<rparr>"
  "elevator_control keys (a\<lparr> vertical_speed := v \<rparr>)
     = (elevator_control keys a)\<lparr> vertical_speed := v \<rparr>"
  "aileron_control keys (a\<lparr> vertical_speed := v \<rparr>)
     = (aileron_control keys a)\<lparr> vertical_speed := v \<rparr>"
  by (simp_all add: throttle_control_def rudder_control_def elevator_control_def
      aileron_control_def Let_def)

lemma with_vertical_speed_aircraft [simp]:
  "aircraft (with_vertical_speed v sim) = (aircraft sim)\<lparr> vertical_speed := v \<rparr>"
  by (simp add: with_vertical_speed_def)

lemma with_vertical_speed_init:
  "with_vertical_speed 0 FlightSimulator_init = FlightSimulator_init"
  by (simp add: with_vertical_speed_def FlightSimulator_init_def Aircraft_init_def)

lemma handle_event_vertical_speed:
  "\<exists>w. handle_event (with_vertical_speed v sim) e = with_vertical_speed w (handle_event sim e)"
proof (cases e)
  case QUIT
  then have "handle_event (with_vertical_speed v sim) e
             = with_vertical_speed v (handle_event sim e)"
    by (simp add: with_vertical_speed_def)
  then show ?thesis ..
next
  case (KEYDOWN k)
  show ?thesis
  proof (cases "k = K_r")
    case True
    with KEYDOWN have "handle_event (with_vertical_speed v sim) e
             = with_vertical_speed 0 (handle_event sim e)"
      by (simp add: with_vertical_speed_init)
    then show ?thesis ..
  next
    case False
    with KEYDOWN have "handle_event (with_vertical_speed v sim) e
             = with_vertical_speed v (handle_event sim e)"
      by (simp add: with_vertical_speed_def)
    then show ?thesis ..
  qed
next
  case (MOUSEMOTION dx dy)
  then have "handle_event (with_vertical_speed v sim) e
             = with_vertical_speed v (handle_event sim e)"
    by (simp add: with_vertical_speed_def)
  then show ?thesis ..
next
  case OTHER_EVENT
  then have "handle_event (with_vertical_speed v sim) e
             = with_vertical_speed v (handle_event sim e)"
    by simp
  then show ?thesis ..
qed

lemma events_vertical_speed:
  "\<exists>w. foldl handle_event (with_vertical_speed v sim) es
        = with_vertical_speed w (foldl handle_event sim es)"
proof (induction es arbitrary: v sim)
  case Nil
  show ?case by auto
next
  case (Cons e es)
  obtain w where "handle_event (with_vertical_speed v sim) e
                  = with_vertical_speed w (handle_event sim e)"
    using handle_event_vertical_speed by blast
  then show ?case using Cons.IH [of w "handle_event sim e"] by simp
qed

lemma handle_input_vertical_speed:
  "\<exists>w. handle_input events keys (with_vertical_speed v sim)
        = with_vertical_speed w (handle_input events keys sim)"
proof -
  obtain w where w: "foldl handle_event (with_vertical_speed v sim) events
                     = with_vertical_speed w (foldl handle_event sim events)"
    using events_vertical_speed by blast
  have "handle_input events keys (with_vertical_speed v sim)
        = with_vertical_speed w (handle_input events keys sim)"
    by (simp add: handle_input_def Let_def w controls_vertical_speed)
       (simp add: with_vertical_speed_def)
  then show ?thesis ..
qed

lemma exec_vertical_speed:
  "\<exists>w. exec (with_vertical_speed v sim) st = with_vertical_speed w (exec sim st)"
proof (cases st)
  case (Input events keys)
  then show ?thesis using handle_input_vertical_speed by simp
next
  case (Update dt rnd)
  obtain w where "update dt rnd ((aircraft sim)\<lparr> vertical_speed := v \<rparr>)
                  = (update dt rnd (aircraft sim))\<lparr> vertical_speed := w \<rparr>"
    using update_vertical_speed_only by blast
  with Update have "exec (with_vertical_speed v sim) st = with_vertical_speed w (exec sim st)"
    by (simp add: with_vertical_speed_def)
  then show ?thesis ..
qed

lemma steps_vertical_speed:
  "\<exists>w. foldl exec (with_vertical_speed v sim) steps
        = with_vertical_speed w (foldl exec sim steps)"
proof (induction steps arbitrary: v sim)
  case Nil
  show ?case by auto
next
  case (Cons st steps)
  obtain w where "exec (with_vertical_speed v sim) st = with_vertical_speed w (exec sim st)"
    using exec_vertical_speed by blast
  then show ?case using Cons.IH [of w "exec sim st"] by simp
qed

section \<open>The claims\<close>

text \<open>
  C1 (as amended).  In every session whose calls of \<^verbatim>\<open>update\<close> have a positive time
  step, after every call pitch lies in \<open>[-30, 30]\<close>, heading in \<open>[0, 360]\<close>, throttle in
  \<open>[0, 1]\<close> and fuel in \<open>[0, 100]\<close>; roll lies in \<open>[-60, 60]\<close> if no time step exceeds
  11 seconds, and airspeed is not negative if no time step exceeds 2 seconds.  The list of
  steps is arbitrary, so the statement holds after each of its prefixes.  In exact
  arithmetic the heading is below 360; the bound is stated inclusive because the float
  \<^verbatim>\<open>%\<close> of line 104 can return 360.0.
\<close>

theorem clamping_invariants:
  assumes "list_all positive_dt steps"
  shows "- 30 \<le> pitch (aircraft (session steps)) \<and> pitch (aircraft (session steps)) \<le> 30
     \<and> 0 \<le> heading (aircraft (session steps)) \<and> heading (aircraft (session steps)) \<le> 360
     \<and> 0 \<le> throttle (aircraft (session steps)) \<and> throttle (aircraft (session steps)) \<le> 1
     \<and> 0 \<le> fuel (aircraft (session steps)) \<and> fuel (aircraft (session steps)) \<le> 100
     \<and> (list_all (dt_at_most 11) steps \<longrightarrow>
          - 60 \<le> roll (aircraft (session steps)) \<and> roll (aircraft (session steps)) \<le> 60)
     \<and> (list_all (dt_at_most 2) steps \<longrightarrow> 0 \<le> airspeed (aircraft (session steps)))"
proof -
  have s: "stable_ranges (aircraft (session steps))"
    unfolding session_def using assms stable_ranges_init by (rule stable_ranges_steps)
  have r: "- 60 \<le> roll (aircraft (session steps)) \<and> roll (aircraft (session steps)) \<le> 60"
    if "list_all (dt_at_most 11) steps"
    unfolding session_def using assms that
    by (rule roll_range_steps) (simp add: FlightSimulator_init_def Aircraft_init_def)
  have a: "0 \<le> airspeed (aircraft (session steps))" if "list_all (dt_at_most 2) steps"
    unfolding session_def using assms that stable_ranges_init
    by (rule airspeed_steps) (simp add: FlightSimulator_init_def Aircraft_init_def)
  from s r a show ?thesis by (simp add: stable_ranges_def)
qed

theorem clamping_invariants_witness:
  "- 30 \<le> pitch (aircraft (session [Input [] ((=) K_EQUALS), Update 1 0]))
   \<and> pitch (aircraft (session [Input [] ((=) K_EQUALS), Update 1 0])) \<le> 30
   \<and> 0 \<le> heading (aircraft (session [Input [] ((=) K_EQUALS), Update 1 0]))
   \<and> heading (aircraft (session [Input [] ((=) K_EQUALS), Update 1 0])) \<le> 360
   \<and> 0 \<le> throttle (aircraft (session [Input [] ((=) K_EQUALS), Update 1 0]))
   \<and> throttle (aircraft (session [Input [] ((=) K_EQUALS), Update 1 0])) \<le> 1
   \<and> 0 \<le> fuel (aircraft (session [Input [] ((=) K_EQUALS), Update 1 0]))
   \<and> fuel (aircraft (session [Input [] ((=) K_EQUALS), Update 1 0])) \<le> 100
   \<and> - 60 \<le> roll (aircraft (session [Input [] ((=) K_EQUALS), Update 1 0]))
   \<and> roll (aircraft (session [Input [] ((=) K_EQUALS), Update 1 0])) \<le> 60
   \<and> 0 \<le> airspeed (aircraft (session [Input [] ((=) K_EQUALS), Update 1 0]))"
  using clamping_invariants [of "[Input [] ((=) K_EQUALS), Update 1 0]"]
  by (simp add: random_value_def)

text \<open>
  Without the bounds on the time step, roll and airspeed leave their ranges.  One tick of
  throttle, an update of one second, the throttle taken back and an update of three
  seconds leave a negative airspeed; a first update of thirteen seconds that draws the
  random number 0 leaves a roll of -65 degrees.
\<close>

theorem clamping_invariants_counterexample:
  "list_all positive_dt
     [Input [] ((=) K_EQUALS), Update 1 0, Input [] ((=) K_MINUS), Update 3 0]
   \<and> airspeed (aircraft (session
     [Input [] ((=) K_EQUALS), Update 1 0, Input [] ((=) K_MINUS), Update 3 0]))
       = - 0.180054
   \<and> list_all positive_dt [Update 13 0]
   \<and> roll (aircraft (session [Update 13 0])) = - 65"
proof -
  have a: "airspeed (aircraft (session
     [Input [] ((=) K_EQUALS), Update 1 0, Input [] ((=) K_MINUS), Update 3 0]))
       = - 0.180054"
    by (simp add: session_def handle_input_no_events update_airspeed throttle_control_def
        FlightSimulator_init_def Aircraft_init_def constants_defs)
  let ?a = "aircraft FlightSimulator_init"
  have b: "roll (before_stall 13 ?a) = 0" "airspeed (before_stall 13 ?a) = 0"
    by (simp_all add: before_stall_roll before_stall_airspeed FlightSimulator_init_def
        Aircraft_init_def)
  have "roll (update 13 0 ?a) = - 65"
    by (simp add: update_def stall_writes b constants_defs)
  then have r: "roll (aircraft (session [Update 13 0])) = - 65"
    by (simp add: session_def)
  from a r show ?thesis by (simp add: random_value_def)
qed

text \<open>
  C2 (as amended).  When the position step brings the altitude below the ground elevation,
  the altitude on return is exactly the ground elevation, and the collision step sets the
  vertical speed to 0 and the pitch to a non-negative value.  The vertical speed on return
  is what lines 120 to 151 make of that 0: half of the target vertical speed times \<open>dt\<close>,
  less \<open>9.8 * dt\<close> in a stall.  The state on return does not depend on the vertical
  speed before the call.
\<close>

theorem ground_floor:
  assumes "y s + airspeed s * sin (radians (pitch s)) * dt < KIND_ELEVATION * FEET_TO_METERS"
  shows "y (update dt rnd s) = KIND_ELEVATION * FEET_TO_METERS
     \<and> vertical_speed (ground_collision (integrate_position dt s)) = 0
     \<and> 0 \<le> pitch (ground_collision (integrate_position dt s))
     \<and> vertical_speed (update dt rnd s) =
         target_vs (update dt rnd s) * dt * 0.5
         - (if airspeed (update dt rnd s) < CESSNA_STALL_SPEED * KNOTS_TO_MPS * 0.9
            then 9.8 * dt else 0)
     \<and> update dt rnd (s\<lparr> vertical_speed := v \<rparr>) = update dt rnd s"
proof -
  have 1: "y (update dt rnd s) = KIND_ELEVATION * FEET_TO_METERS"
    using assms by (simp add: update_y)
  have 2: "vertical_speed (ground_collision (integrate_position dt s)) = 0"
    using assms by (simp add: ground_collision_writes integrate_position_writes)
  have 3: "0 \<le> pitch (ground_collision (integrate_position dt s))"
    using assms by (simp add: ground_collision_writes integrate_position_writes)
  have 4: "vertical_speed (update dt rnd s) =
         target_vs (update dt rnd s) * dt * 0.5
         - (if airspeed (update dt rnd s) < CESSNA_STALL_SPEED * KNOTS_TO_MPS * 0.9
            then 9.8 * dt else 0)"
    using assms by (simp add: update_vertical_speed_field Let_def)
  have 5: "update dt rnd (s\<lparr> vertical_speed := v \<rparr>) = update dt rnd s"
    using assms
    by (simp only: update_def before_stall_def update_forgets_vertical_speed_on_collision)
  from 1 2 3 4 5 show ?thesis by blast
qed

theorem ground_floor_witness:
  "y (update 1 0 (Aircraft_init\<lparr> pitch := - 30, airspeed := 10, vertical_speed := - 7 \<rparr>))
     = KIND_ELEVATION * FEET_TO_METERS
   \<and> update 1 0 (Aircraft_init\<lparr> pitch := - 30, airspeed := 10, vertical_speed := - 7 \<rparr>
                  \<lparr> vertical_speed := 3 \<rparr>)
     = update 1 0 (Aircraft_init\<lparr> pitch := - 30, airspeed := 10, vertical_speed := - 7 \<rparr>)"
  using ground_floor [of "Aircraft_init\<lparr> pitch := - 30, airspeed := 10, vertical_speed := - 7 \<rparr>"
      1 0 3]
  by (simp add: Aircraft_init_def sin_radians_minus_30)

text \<open>
  The vertical speed is not 0 on return: on the ground with pitch -30 degrees and an
  airspeed of 10 m/s, an update of one second returns a vertical speed of -9.8 m/s.
\<close>

theorem ground_floor_counterexample:
  "y (Aircraft_init\<lparr> pitch := - 30, airspeed := 10 \<rparr>)
     + airspeed (Aircraft_init\<lparr> pitch := - 30, airspeed := 10 \<rparr>)
       * sin (radians (pitch (Aircraft_init\<lparr> pitch := - 30, airspeed := 10 \<rparr>))) * 1
     < KIND_ELEVATION * FEET_TO_METERS
   \<and> vertical_speed (update 1 0 (Aircraft_init\<lparr> pitch := - 30, airspeed := 10 \<rparr>)) = - 9.8"
proof -
  let ?s = "Aircraft_init\<lparr> pitch := - 30, airspeed := 10 \<rparr>"
  have c: "y ?s + airspeed ?s * sin (radians (pitch ?s)) * 1 < KIND_ELEVATION * FEET_TO_METERS"
    by (simp add: Aircraft_init_def sin_radians_minus_30)
  have p: "pitch (update 1 0 ?s) = 0"
    using c by (simp add: update_pitch) (simp add: Aircraft_init_def)
  have a: "airspeed (update 1 0 ?s) = 5"
    by (simp add: update_airspeed Aircraft_init_def)
  have t: "target_vs (update 1 0 ?s) = 0"
    by (simp add: target_vs_def p)
  have "vertical_speed (update 1 0 ?s) = - 9.8"
    using c by (simp add: update_vertical_speed_field Let_def t a constants_defs)
  with c show ?thesis by blast
qed

text \<open>
  C3.  The fuel statements hold: constant at throttle 0, strictly decreasing to 0 at
  throttle 1.  The engine does not run down on an empty tank.  Lines 140 to 142 take
  \<open>500 * dt\<close> off the RPM and floor it at 0, but lines 116 to 118 of the same call have
  first pulled the RPM toward the throttle target, fuel or no fuel.  With throttle 1, an
  empty tank and 1000 RPM, a call of a tenth of a second returns 1310 RPM; at 2550 RPM
  the two effects cancel and the RPM stays where it is.
\<close>

theorem empty_tank_rpm_rises:
  "fuel (Aircraft_init\<lparr> throttle := 1, fuel := 0, rpm := 1000 \<rparr>) = 0
   \<and> throttle (Aircraft_init\<lparr> throttle := 1, fuel := 0, rpm := 1000 \<rparr>) = 1
   \<and> rpm (Aircraft_init\<lparr> throttle := 1, fuel := 0, rpm := 1000 \<rparr>) = 1000
   \<and> fuel (update (1 / 10) 0 (Aircraft_init\<lparr> throttle := 1, fuel := 0, rpm := 1000 \<rparr>)) = 0
   \<and> rpm (update (1 / 10) 0 (Aircraft_init\<lparr> throttle := 1, fuel := 0, rpm := 1000 \<rparr>)) = 1310
   \<and> rpm (update (1 / 10) 0 (Aircraft_init\<lparr> throttle := 1, fuel := 0, rpm := 2550 \<rparr>)) = 2550"
  by (simp add: update_fuel update_rpm_field Aircraft_init_def)

text \<open>
  C4.  With the throttle held at \<open>k\<close> and a time step \<open>0 < dt \<le> 2\<close>, one call moves the
  airspeed by \<open>(target - airspeed) * dt * 0.5\<close> with target \<open>k * 140\<close> knots in m/s; after
  \<open>n\<close> calls the gap to the target is the first gap times \<open>(1 - dt / 2) ^ n\<close>, so the
  airspeed tends to the target; and it never crosses the target: from below it rises and
  stays below, from above it falls and stays above.
\<close>

theorem lag_convergence:
  assumes "throttle s = k" and "0 < dt" and "dt \<le> 2"
  shows "airspeed (update dt rnd s) =
           airspeed s + (k * CESSNA_MAX_SPEED * KNOTS_TO_MPS - airspeed s) * dt * 0.5
     \<and> airspeed (run n dt r s) =
           k * CESSNA_MAX_SPEED * KNOTS_TO_MPS
           + (airspeed s - k * CESSNA_MAX_SPEED * KNOTS_TO_MPS) * (1 - dt * 0.5) ^ n
     \<and> (\<lambda>n. airspeed (run n dt r s)) \<longlonglongrightarrow> k * CESSNA_MAX_SPEED * KNOTS_TO_MPS
     \<and> (airspeed s \<le> k * CESSNA_MAX_SPEED * KNOTS_TO_MPS \<longrightarrow>
          airspeed (run n dt r s) \<le> airspeed (run (Suc n) dt r s)
          \<and> airspeed (run n dt r s) \<le> k * CESSNA_MAX_SPEED * KNOTS_TO_MPS)
     \<and> (k * CESSNA_MAX_SPEED * KNOTS_TO_MPS \<le> airspeed s \<longrightarrow>
          airspeed (run (Suc n) dt r s) \<le> airspeed (run n dt r s)
          \<and> k * CESSNA_MAX_SPEED * KNOTS_TO_MPS \<le> airspeed (run n dt r s))"
proof -
  define T where "T = k * CESSNA_MAX_SPEED * KNOTS_TO_MPS"
  define q where "q = 1 - dt * 0.5"
  have q: "0 \<le> q" "q < 1" using assms by (simp_all add: q_def)
  have closed: "airspeed (run m dt r s) = T + (airspeed s - T) * q ^ m" for m
    using run_airspeed [of m dt r s] assms(1) by (simp add: T_def q_def)
  have step: "airspeed (update dt rnd s) = airspeed s + (T - airspeed s) * dt * 0.5"
    using assms(1) by (simp add: update_airspeed T_def)
  have lim: "(\<lambda>n. airspeed (run n dt r s)) \<longlonglongrightarrow> T"
    unfolding closed using q by (rule geometric_tendsto)
  have pow: "0 \<le> q ^ n" "q ^ Suc n \<le> q ^ n"
    using q by (simp_all add: mult_left_le_one_le)
  have below: "airspeed (run n dt r s) \<le> airspeed (run (Suc n) dt r s)
               \<and> airspeed (run n dt r s) \<le> T" if "airspeed s \<le> T"
  proof -
    from that have d: "airspeed s - T \<le> 0" by simp
    have "(airspeed s - T) * q ^ n \<le> (airspeed s - T) * q ^ Suc n"
      using d pow(2) by (rule mult_left_mono_neg[rotated])
    moreover have "(airspeed s - T) * q ^ n \<le> 0"
      using d pow(1) by (simp add: mult_nonpos_nonneg)
    ultimately show ?thesis unfolding closed by simp
  qed
  have above: "airspeed (run (Suc n) dt r s) \<le> airspeed (run n dt r s)
               \<and> T \<le> airspeed (run n dt r s)" if "T \<le> airspeed s"
  proof -
    from that have d: "0 \<le> airspeed s - T" by simp
    have "(airspeed s - T) * q ^ Suc n \<le> (airspeed s - T) * q ^ n"
      using pow(2) d by (rule mult_left_mono)
    moreover have "0 \<le> (airspeed s - T) * q ^ n"
      using d pow(1) by simp
    ultimately show ?thesis unfolding closed by simp
  qed
  from step closed [of n] lim below above show ?thesis
    unfolding T_def q_def by blast
qed

theorem lag_convergence_witness:
  "(\<lambda>n. airspeed (run n (1 / 10) (\<lambda>i. 0) (Aircraft_init\<lparr> throttle := 0.8 \<rparr>)))
     \<longlonglongrightarrow> 0.8 * CESSNA_MAX_SPEED * KNOTS_TO_MPS
   \<and> airspeed (run 200 (1 / 10) (\<lambda>i. 0) (Aircraft_init\<lparr> throttle := 0.8 \<rparr>))
       \<le> 0.8 * CESSNA_MAX_SPEED * KNOTS_TO_MPS"
  using lag_convergence [of "Aircraft_init\<lparr> throttle := 0.8 \<rparr>" "0.8" "1 / 10" 0 200 "\<lambda>i. 0"]
  by (simp add: Aircraft_init_def constants_defs)

text \<open>
  C5.  The eye position is the aircraft position plus the eye offset turned by the
  heading rotation first, then the pitch rotation, then the roll rotation (the product
  roll times pitch times heading applied to the offset).  With heading, pitch and roll all
  0 and the eye offset \<open>(0, 0.1, -0.3)\<close> it is the aircraft position plus
  \<open>(0, 0.1, -0.3)\<close>.
\<close>

theorem camera_identity_rotation:
  "(heading (aircraft sim) = 0 \<and> pitch (aircraft sim) = 0 \<and> roll (aircraft sim) = 0
      \<and> eye_offset sim = (0, 0.1, - 0.3) \<longrightarrow>
    render_eye sim =
      (x (aircraft sim) + 0, y (aircraft sim) + 0.1, z (aircraft sim) + (- 0.3)))
   \<and> render_eye sim =
      (case matvec (R_roll (roll (aircraft sim)))
              (matvec (R_pitch (pitch (aircraft sim)))
                (matvec (R_heading (heading (aircraft sim))) (eye_offset sim))) of
         (e0, e1, e2) \<Rightarrow>
           (x (aircraft sim) + e0, y (aircraft sim) + e1, z (aircraft sim) + e2))"
proof -
  have g: "render_eye sim =
      (case matvec (R_roll (roll (aircraft sim)))
              (matvec (R_pitch (pitch (aircraft sim)))
                (matvec (R_heading (heading (aircraft sim))) (eye_offset sim))) of
         (e0, e1, e2) \<Rightarrow>
           (x (aircraft sim) + e0, y (aircraft sim) + e1, z (aircraft sim) + e2))"
    by (simp add: render_eye_def camera_rotation_def matvec_matmul)
  have i: "render_eye sim =
      (x (aircraft sim) + 0, y (aircraft sim) + 0.1, z (aircraft sim) + (- 0.3))"
    if "heading (aircraft sim) = 0" "pitch (aircraft sim) = 0" "roll (aircraft sim) = 0"
      "eye_offset sim = (0, 0.1, - 0.3)"
    unfolding g using that by (simp add: R_roll_def R_pitch_def R_heading_def radians_def)
  from g i show ?thesis by blast
qed

theorem camera_identity_rotation_witness:
  "render_eye (FlightSimulator_init\<lparr> aircraft := Aircraft_init \<rparr>) = (0, 243.0256, - 0.3)
   \<and> render_eye (FlightSimulator_init\<lparr> aircraft := Aircraft_init\<lparr> heading := 90 \<rparr> \<rparr>)
       = (0.3, 243.0256, 0)"
proof -
  have r: "radians 90 = pi / 2" "radians 0 = 0" by (simp_all add: radians_def)
  show ?thesis
    using camera_identity_rotation [of "FlightSimulator_init\<lparr> aircraft := Aircraft_init \<rparr>"]
      camera_identity_rotation
        [of "FlightSimulator_init\<lparr> aircraft := Aircraft_init\<lparr> heading := 90 \<rparr> \<rparr>"]
    by (simp add: FlightSimulator_init_def Aircraft_init_def constants_defs
        R_roll_def R_pitch_def R_heading_def r)
qed

text \<open>
  C6.  From heading 359 with rudder +1, the heading on return is 359 plus the increment,
  modulo 360, and lies in \<open>[0, 360)\<close>; the increment is the rudder term plus the banking
  term of line 101.  An increment above 1 degree (and below 361) wraps around once.
\<close>

theorem heading_wrap:
  assumes "heading s = 359" and "rudder s = 1"
    and "inc = rudder s * CESSNA_YAW_RATE * dt
               + sin (radians (roll s + aileron s * CESSNA_ROLL_RATE * dt)) * dt * 10"
  shows "heading (update dt rnd s) = py_mod (359 + inc) 360
     \<and> 0 \<le> heading (update dt rnd s) \<and> heading (update dt rnd s) < 360
     \<and> (1 < inc \<and> inc < 361 \<longrightarrow> heading (update dt rnd s) = 359 + inc - 360)"
proof -
  have h: "heading (update dt rnd s) = py_mod (359 + inc) 360"
    using assms by (simp add: update_heading add.assoc)
  have r: "0 \<le> py_mod (359 + inc) 360 \<and> py_mod (359 + inc) 360 < 360"
    by (rule py_mod_range) simp
  have w: "1 < inc \<and> inc < 361 \<longrightarrow> py_mod (359 + inc) 360 = 359 + inc - 360"
    using py_mod_wrap_once [of 360 "359 + inc"] by simp
  from h r w show ?thesis by simp
qed

theorem heading_wrap_witness:
  "heading (update (1 / 10) 0 (Aircraft_init\<lparr> heading := 359, rudder := 1 \<rparr>)) = 1"
  using heading_wrap [of "Aircraft_init\<lparr> heading := 359, rudder := 1 \<rparr>" 2 "1 / 10" 0]
  by (simp add: Aircraft_init_def constants_defs radians_def)

text \<open>
  C7 (as amended).  The random number is the only source of non-determinism: two calls
  from one state with one \<open>dt\<close> return states that agree in every field but roll.  They
  agree in roll too if the stall check of line 149 finds the airspeed at or above 0.9
  times the stall speed, or line 152 finds the roll 5 degrees or more from level.  Both
  read the values of the same call: the airspeed after the throttle lag of lines 111 to
  113, the roll after its integration, limiting and levelling in lines 96, 108 and 146.
\<close>

theorem update_deterministic_without_stall_roll:
  "(CESSNA_STALL_SPEED * KNOTS_TO_MPS * 0.9
      \<le> airspeed s + (throttle s * CESSNA_MAX_SPEED * KNOTS_TO_MPS - airspeed s) * dt * 0.5
    \<or> 5 \<le> \<bar>if \<bar>aileron s\<bar> < 0.1
               then max (- 60) (min 60 (roll s + aileron s * CESSNA_ROLL_RATE * dt)) * 0.95
               else max (- 60) (min 60 (roll s + aileron s * CESSNA_ROLL_RATE * dt))\<bar>
    \<longrightarrow> update dt r1 s = update dt r2 s)
   \<and> (update dt r1 s)\<lparr> roll := c \<rparr> = (update dt r2 s)\<lparr> roll := c \<rparr>"
proof -
  have a: "airspeed (before_stall dt s) =
      airspeed s + (throttle s * CESSNA_MAX_SPEED * KNOTS_TO_MPS - airspeed s) * dt * 0.5"
    by (rule before_stall_airspeed)
  have r: "roll (before_stall dt s) =
      (if \<bar>aileron s\<bar> < 0.1
       then max (- 60) (min 60 (roll s + aileron s * CESSNA_ROLL_RATE * dt)) * 0.95
       else max (- 60) (min 60 (roll s + aileron s * CESSNA_ROLL_RATE * dt)))"
    by (rule before_stall_roll)
  have 1: "update dt r1 s = update dt r2 s"
    if "CESSNA_STALL_SPEED * KNOTS_TO_MPS * 0.9 \<le> airspeed (before_stall dt s)
        \<or> 5 \<le> \<bar>roll (before_stall dt s)\<bar>"
    using that by (auto simp add: update_def stall_def Let_def)
  have 2: "(update dt r1 s)\<lparr> roll := c \<rparr> = (update dt r2 s)\<lparr> roll := c \<rparr>"
    by (simp add: update_def stall_def Let_def)
  from 1 2 show ?thesis unfolding a r by blast
qed

theorem update_deterministic_without_stall_roll_witness:
  "update 1 0 (Aircraft_init\<lparr> roll := 30 \<rparr>) = update 1 (9 / 10) (Aircraft_init\<lparr> roll := 30 \<rparr>)"
  using update_deterministic_without_stall_roll [of "Aircraft_init\<lparr> roll := 30 \<rparr>" 1 0 "9 / 10"]
  by (simp add: Aircraft_init_def constants_defs)

text \<open>
  The condition does not hold of the values before the call.  From a roll of 5.2 degrees
  the levelling leaves 4.94, and from an airspeed of 24 m/s the throttle lag at idle
  leaves 12: in both cases the random number is drawn, and the calls that draw 0 and 0.9
  return different rolls.
\<close>

theorem update_deterministic_counterexample:
  "5 \<le> \<bar>roll (Aircraft_init\<lparr> roll := 5.2 \<rparr>)\<bar>
   \<and> roll (update 1 0 (Aircraft_init\<lparr> roll := 5.2 \<rparr>)) = - 0.06
   \<and> roll (update 1 0.9 (Aircraft_init\<lparr> roll := 5.2 \<rparr>)) = 8.94
   \<and> CESSNA_STALL_SPEED * KNOTS_TO_MPS * 0.9 \<le> airspeed (Aircraft_init\<lparr> airspeed := 24 \<rparr>)
   \<and> roll (update 1 0 (Aircraft_init\<lparr> airspeed := 24 \<rparr>)) = - 5
   \<and> roll (update 1 0.9 (Aircraft_init\<lparr> airspeed := 24 \<rparr>)) = 4"
  by (simp add: update_def stall_writes before_stall_roll before_stall_airspeed
      Aircraft_init_def constants_defs)

text \<open>
  C8.  The control axes are not all clamped.  The throttle keys clamp with
  \<^verbatim>\<open>min\<close> and \<^verbatim>\<open>max\<close>, and the rudder, elevator and aileron keys assign -1, 0 or
  1; but a mouse motion assigns \<^verbatim>\<open>-dy * 0.1 / 10\<close> to the elevator as it is.  A motion
  of 200 pixels upwards, with no key held, leaves the elevator at 2, outside the range -1
  to 1 that \<^verbatim>\<open>Aircraft.__init__\<close> documents, and the next update of a tenth of a
  second turns the pitch by 5 degrees, twice the pitch rate of 25 degrees per second.
\<close>

theorem mouse_elevator_not_clamped:
  "elevator (aircraft (handle_input [MOUSEMOTION 0 (- 200)] (\<lambda>k. False) FlightSimulator_init)) = 2
   \<and> pitch (update (1 / 10) 0
        (aircraft (handle_input [MOUSEMOTION 0 (- 200)] (\<lambda>k. False) FlightSimulator_init))) = 5
   \<and> CESSNA_PITCH_RATE * (1 / 10) = 2.5"
proof -
  let ?a = "aircraft (handle_input [MOUSEMOTION 0 (- 200)] (\<lambda>k. False) FlightSimulator_init)"
  have e: "elevator ?a = 2"
    by (simp add: handle_input_def Let_def elevator_control_def FlightSimulator_init_def
        Aircraft_init_def)
  have p: "pitch ?a = 0" and s: "airspeed ?a = 0"
    by (simp_all add: handle_input_def Let_def FlightSimulator_init_def Aircraft_init_def)
  have "pitch (update (1 / 10) 0 ?a) = 5"
    by (simp only: update_pitch e p s) (simp add: CESSNA_PITCH_RATE_def)
  with e show ?thesis by (simp add: CESSNA_PITCH_RATE_def)
qed

text \<open>
  C9.  The position after a call is a function of the airspeed, heading, pitch, position
  and \<open>dt\<close> before it, with the altitude floored at the ground elevation; the vertical
  speed does not occur in it.  Overwriting the vertical speed at any moment of a session
  changes no position of the rest of the session: the vertical speed is written (by the
  ground collision, the relaxation toward the target and the stall term) and never read
  by any other field.
\<close>

theorem position_ignores_vertical_speed:
  "x (update dt rnd s) =
     x s + airspeed s * sin (radians (heading s)) * cos (radians (pitch s)) * dt
   \<and> y (update dt rnd s) =
     max (KIND_ELEVATION * FEET_TO_METERS) (y s + airspeed s * sin (radians (pitch s)) * dt)
   \<and> z (update dt rnd s) =
     z s + airspeed s * cos (radians (heading s)) * cos (radians (pitch s)) * dt
   \<and> x (aircraft (foldl exec (with_vertical_speed v sim) steps))
       = x (aircraft (foldl exec sim steps))
   \<and> y (aircraft (foldl exec (with_vertical_speed v sim) steps))
       = y (aircraft (foldl exec sim steps))
   \<and> z (aircraft (foldl exec (with_vertical_speed v sim) steps))
       = z (aircraft (foldl exec sim steps))"
proof -
  obtain w where "foldl exec (with_vertical_speed v sim) steps
                  = with_vertical_speed w (foldl exec sim steps)"
    using steps_vertical_speed by blast
  then have "x (aircraft (foldl exec (with_vertical_speed v sim) steps))
       = x (aircraft (foldl exec sim steps))"
    and "y (aircraft (foldl exec (with_vertical_speed v sim) steps))
       = y (aircraft (foldl exec sim steps))"
    and "z (aircraft (foldl exec (with_vertical_speed v sim) steps))
       = z (aircraft (foldl exec sim steps))"
    by simp_all
  moreover have "y (update dt rnd s) =
     max (KIND_ELEVATION * FEET_TO_METERS) (y s + airspeed s * sin (radians (pitch s)) * dt)"
    by (simp add: update_y max_def)
  ultimately show ?thesis by (simp add: update_x update_z)
qed

theorem position_ignores_vertical_speed_witness:
  "x (aircraft (foldl exec (with_vertical_speed 5 FlightSimulator_init)
        [Update 1 0, Input [] ((=) K_EQUALS), Update 1 0]))
     = x (aircraft (foldl exec FlightSimulator_init
        [Update 1 0, Input [] ((=) K_EQUALS), Update 1 0]))
   \<and> y (aircraft (foldl exec (with_vertical_speed 5 FlightSimulator_init)
        [Update 1 0, Input [] ((=) K_EQUALS), Update 1 0]))
     = y (aircraft (foldl exec FlightSimulator_init
        [Update 1 0, Input [] ((=) K_EQUALS), Update 1 0]))"
  using position_ignores_vertical_speed [of 1 0 Aircraft_init 5 FlightSimulator_init
      "[Update 1 0, Input [] ((=) K_EQUALS), Update 1 0]"]
  by blast

text \<open>
  C10.  In a call that hits the ground, the pitch is first raised to 0 if negative and the
  elevator term is added afterwards, so with a sufficiently negative elevator the pitch
  is negative on return although the aircraft is on the ground.
\<close>

theorem ground_pitch_clamp_precedes_elevator:
  assumes "y s + airspeed s * sin (radians (pitch s)) * dt < KIND_ELEVATION * FEET_TO_METERS"
    and "max 0 (pitch s) + elevator s * CESSNA_PITCH_RATE * dt < 0"
  shows "pitch (ground_collision (integrate_position dt s)) = max 0 (pitch s)
     \<and> pitch (update dt rnd s) =
         max (- 30) (min 30 (max 0 (pitch s) + elevator s * CESSNA_PITCH_RATE * dt))
     \<and> pitch (update dt rnd s) < 0
     \<and> y (update dt rnd s) = KIND_ELEVATION * FEET_TO_METERS"
  using assms
  by (simp add: update_pitch update_y ground_collision_writes integrate_position_writes)

theorem ground_pitch_clamp_precedes_elevator_witness:
  "pitch (update 1 0 (Aircraft_init\<lparr> pitch := - 30, airspeed := 10, elevator := - 1 \<rparr>)) = - 25
   \<and> y (update 1 0 (Aircraft_init\<lparr> pitch := - 30, airspeed := 10, elevator := - 1 \<rparr>))
       = KIND_ELEVATION * FEET_TO_METERS"
  using ground_pitch_clamp_precedes_elevator
    [of "Aircraft_init\<lparr> pitch := - 30, airspeed := 10, elevator := - 1 \<rparr>" 1 0]
  by (simp add: Aircraft_init_def sin_radians_minus_30 CESSNA_PITCH_RATE_def)

end
